theory Spec2Isabelle
  imports Main "HOL-Library.Sublist"
begin

section \<open>JavaScript values used by app.js\<close>

text \<open>
  A JavaScript string is modelled as a \<open>string\<close> whose characters are its code units;
  the model covers the strings whose code units are below 256. The constant texts of
  app.js that start with an emoji are written with the emoji in its UTF-8 bytes; no
  function of the program inspects them.

  A value that may be \<open>undefined\<close> or \<open>null\<close> is an \<open>option\<close>. The functions
  below are the JavaScript operators and String methods that app.js applies to them.
\<close>

definition truthy :: "string option \<Rightarrow> bool" where
  "truthy v = (case v of None \<Rightarrow> False | Some s \<Rightarrow> s \<noteq> [])"

definition js_or :: "string option \<Rightarrow> string option \<Rightarrow> string option" where
  "js_or a b = (if truthy a then a else b)"

definition js_or_str :: "string option \<Rightarrow> string \<Rightarrow> string" where
  "js_or_str a b = (case a of None \<Rightarrow> b | Some s \<Rightarrow> if s = [] then b else s)"

text \<open>
  A value inside a template literal: \<open>null\<close> prints as \<open>null\<close> and an unset
  environment variable (\<open>undefined\<close>) as \<open>undefined\<close>.
\<close>

definition template :: "string option \<Rightarrow> string" where
  "template v = (case v of None \<Rightarrow> ''null'' | Some s \<Rightarrow> s)"

definition template_env :: "string option \<Rightarrow> string" where
  "template_env v = (case v of None \<Rightarrow> ''undefined'' | Some s \<Rightarrow> s)"

definition startsWith :: "string \<Rightarrow> string \<Rightarrow> bool" where
  "startsWith s p = prefix p s"

definition js_includes :: "string \<Rightarrow> string \<Rightarrow> bool" where
  "js_includes s p = sublist p s"

fun js_replace :: "string \<Rightarrow> string \<Rightarrow> string \<Rightarrow> string" where
  "js_replace pat rep [] = (if pat = [] then rep else [])"
| "js_replace pat rep (c # cs) =
     (if prefix pat (c # cs) then rep @ drop (length pat) (c # cs)
      else c # js_replace pat rep cs)"

definition isSpace :: "char \<Rightarrow> bool" where
  "isSpace c = (of_char c \<in> {9, 10, 11, 12, 13, 32, 160 :: nat})"

definition trim :: "string \<Rightarrow> string" where
  "trim s = rev (dropWhile isSpace (rev (dropWhile isSpace s)))"

definition lowerChar :: "char \<Rightarrow> char" where
  "lowerChar c =
     (let n = (of_char c :: nat) in
      if (65 \<le> n \<and> n \<le> 90) \<or> (192 \<le> n \<and> n \<le> 222 \<and> n \<noteq> 215)
      then char_of (n + 32) else c)"

definition toLowerCase :: "string \<Rightarrow> string" where
  "toLowerCase s = map lowerChar s"

definition digit :: "nat \<Rightarrow> char" where
  "digit d = ''0123456789'' ! (d mod 10)"

fun showNat :: "nat \<Rightarrow> string" where
  "showNat n = (if n < 10 then [digit n] else showNat (n div 10) @ [digit n])"

declare showNat.simps [simp del]

section \<open>Data model\<close>

record text_object =
  text_type :: string
  text_text :: string

record block =
  block_type :: string
  block_id :: "string option"
  block_text :: "text_object option"

record has_blocks =
  blocks :: "block list option"

text \<open>A platform message, as delivered in an event and as returned in a thread's history.\<close>

record message = has_blocks +
  channel :: string
  user :: "string option"
  "text" :: "string option"
  ts :: string
  thread_ts :: "string option"
  bot_id :: "string option"
  subtype :: "string option"
  bot_profile :: "string option"

text \<open>The object built by \<open>createMessageWithConversationId\<close>.\<close>

record reply_payload = has_blocks +
  reply_text :: string
  reply_thread_ts :: string
  unfurl_links :: bool
  unfurl_media :: bool

section \<open>Conversation codec\<close>

fun scanBlocks :: "block list \<Rightarrow> string option" where
  "scanBlocks [] = None"
| "scanBlocks (b # bs) =
     (case block_id b of
        None \<Rightarrow> scanBlocks bs
      | Some bid \<Rightarrow>
          if bid \<noteq> [] \<and> startsWith bid ''conv_''
          then Some (js_replace ''conv_'' [] bid)
          else scanBlocks bs)"

definition extractConversationId :: "'a has_blocks_scheme \<Rightarrow> string option" where
  "extractConversationId m =
     (case blocks m of None \<Rightarrow> None | Some bs \<Rightarrow> scanBlocks bs)"

definition createMessageWithConversationId ::
  "string \<Rightarrow> string option \<Rightarrow> string \<Rightarrow> reply_payload" where
  "createMessageWithConversationId txt conversationId threadTs =
     \<lparr> blocks = Some [\<lparr> block_type = ''section'',
                        block_id = Some (''conv_'' @ template conversationId),
                        block_text = Some \<lparr> text_type = ''mrkdwn'', text_text = txt \<rparr> \<rparr>],
       reply_text = txt,
       reply_thread_ts = threadTs,
       unfurl_links = False,
       unfurl_media = False \<rparr>"

section \<open>Configuration, the outside world and its observable effects\<close>

text \<open>The environment variables read at start-up (lines 13 to 17 and 305).\<close>

record config =
  SLACK_CHANNEL_ID :: "string option"
  MATT_GPT_API_URL_env :: "string option"
  MATT_GPT_BEARER_TOKEN :: "string option"
  OPENROUTER_API_KEY :: "string option"
  SLACK_BOT_USER_ID :: "string option"

definition MONITORED_CHANNEL :: "config \<Rightarrow> string option" where
  "MONITORED_CHANNEL cfg = SLACK_CHANNEL_ID cfg"

definition MATT_GPT_API_URL :: "config \<Rightarrow> string" where
  "MATT_GPT_API_URL cfg = js_or_str (MATT_GPT_API_URL_env cfg) ''http://localhost:8000''"

record js_error =
  err_message :: string

record replies_args =
  replies_channel :: string
  replies_ts :: "string option"
  replies_limit :: nat

record say_args =
  say_text :: string
  say_thread_ts :: "string option"

record say_result =
  posted_ts :: string

record update_args =
  update_channel :: string
  update_ts :: string
  update_payload :: reply_payload

record request_payload =
  payload_message :: "string option"
  payload_openrouter_api_key :: "string option"
  payload_conversation_id :: "string option"

record request_config =
  header_authorization :: string
  header_content_type :: string
  timeout :: nat

text \<open>The body of a backend answer; its usage metadata is only logged.\<close>

record chat_response =
  response :: string
  conversation_id :: "string option"

record api_context =
  context_thread_ts :: string
  context_channel :: string
  context_user_id :: "string option"
  context_conversation_id :: "string option"

text \<open>
  Every call that leaves the process is recorded, in order, in a trace of events. Calls to
  the logger are not recorded.
\<close>

datatype event =
    ConversationsReplies replies_args
  | Say say_args
  | ChatUpdate update_args
  | AxiosPost string request_payload request_config
  | SetTimeout nat

text \<open>
  The platform and the backend are outside the program. Their answers are given by a
  \<open>world\<close>: the answer to a call depends on its arguments and on the moment of the call,
  which is the number of events before it. \<open>Inl\<close> is a rejected promise.
\<close>

record world =
  conversations_replies :: "nat \<Rightarrow> replies_args \<Rightarrow> js_error + message list"
  say :: "nat \<Rightarrow> say_args \<Rightarrow> js_error + say_result"
  chat_update :: "nat \<Rightarrow> update_args \<Rightarrow> js_error + unit"
  axios_post :: "nat \<Rightarrow> string \<Rightarrow> request_payload \<Rightarrow> request_config \<Rightarrow> js_error + chat_response"

section \<open>Backend client (lines 20 to 99)\<close>

datatype call_result = Returned chat_response | ReturnedUndefined | Threw js_error

definition requestPayload :: "config \<Rightarrow> string option \<Rightarrow> api_context \<Rightarrow> request_payload" where
  "requestPayload cfg msg ctx =
     \<lparr> payload_message = msg,
       payload_openrouter_api_key = OPENROUTER_API_KEY cfg,
       payload_conversation_id =
         (if truthy (context_conversation_id ctx) then context_conversation_id ctx else None) \<rparr>"

definition requestConfig :: "config \<Rightarrow> request_config" where
  "requestConfig cfg =
     \<lparr> header_authorization = ''Bearer '' @ template_env (MATT_GPT_BEARER_TOKEN cfg),
       header_content_type = ''application/json'',
       timeout = 30000 \<rparr>"

function callMattGPT_loop ::
  "config \<Rightarrow> world \<Rightarrow> string option \<Rightarrow> api_context \<Rightarrow> nat \<Rightarrow> nat \<Rightarrow> event list
     \<Rightarrow> call_result \<times> event list" where
  "callMattGPT_loop cfg w msg ctx maxRetries attempt tr =
     (if attempt \<le> maxRetries then
        (let url = MATT_GPT_API_URL cfg @ ''/chat'';
             tr1 = tr @ [AxiosPost url (requestPayload cfg msg ctx) (requestConfig cfg)]
         in case axios_post w (length tr) url (requestPayload cfg msg ctx) (requestConfig cfg) of
              Inr data \<Rightarrow> (Returned data, tr1)
            | Inl error \<Rightarrow>
                if attempt = maxRetries
                then (Threw \<lparr> err_message = ''Matt-GPT API failed after '' @ showNat maxRetries
                                 @ '' attempts: '' @ err_message error \<rparr>, tr1)
                else callMattGPT_loop cfg w msg ctx maxRetries (attempt + 1)
                       (tr1 @ [SetTimeout (2 ^ attempt * 1000)]))
      else (ReturnedUndefined, tr))"
  by pat_completeness auto
termination
  by (relation "measure (\<lambda>(cfg, w, msg, ctx, maxRetries, attempt, tr). Suc maxRetries - attempt)") auto

declare callMattGPT_loop.simps [simp del]

definition callMattGPTWithRetry ::
  "config \<Rightarrow> world \<Rightarrow> string option \<Rightarrow> api_context \<Rightarrow> nat \<Rightarrow> event list
     \<Rightarrow> call_result \<times> event list" where
  "callMattGPTWithRetry cfg w msg ctx maxRetries tr =
     callMattGPT_loop cfg w msg ctx maxRetries 1 tr"

section \<open>Helpers of the handlers (lines 205 to 224)\<close>

definition isDMChannel :: "string \<Rightarrow> bool" where
  "isDMChannel channelId = startsWith channelId ''D''"

definition isProbablyGroupDMOrPrivateChannel :: "string \<Rightarrow> bool" where
  "isProbablyGroupDMOrPrivateChannel channelId = startsWith channelId ''G''"

definition isIdChar :: "char \<Rightarrow> bool" where
  "isIdChar c =
     (let n = (of_char c :: nat) in (65 \<le> n \<and> n \<le> 90) \<or> (48 \<le> n \<and> n \<le> 57))"

text \<open>
  The regular expression \<^verbatim>\<open>/^<@[UW][A-Z0-9]+(?:\|[^>]+)?>\s*/g\<close> can only match at
  index 0, and its greedy choices are forced: a shorter run of \<^verbatim>\<open>[A-Z0-9]\<close> or of
  \<^verbatim>\<open>[^>]\<close> is followed by a character of the same class, never by the delimiter that
  must come next. \<open>matchMention\<close> returns what follows the match.
\<close>

definition afterMentionId :: "string \<Rightarrow> string option" where
  "afterMentionId r =
     (case r of
        [] \<Rightarrow> None
      | c # r' \<Rightarrow>
          if c = CHR ''>'' then Some (dropWhile isSpace r')
          else if c = CHR ''|'' then
            (if takeWhile (\<lambda>x. x \<noteq> CHR ''>'') r' = [] then None
             else (case dropWhile (\<lambda>x. x \<noteq> CHR ''>'') r' of
                     [] \<Rightarrow> None
                   | d # r'' \<Rightarrow> Some (dropWhile isSpace r'')))
          else None)"

definition matchMention :: "string \<Rightarrow> string option" where
  "matchMention s =
     (case s of
        c1 # c2 # c3 # r \<Rightarrow>
          if c1 = CHR ''<'' \<and> c2 = CHR ''@'' \<and> (c3 = CHR ''U'' \<or> c3 = CHR ''W'')
             \<and> takeWhile isIdChar r \<noteq> []
          then afterMentionId (dropWhile isIdChar r)
          else None
      | _ \<Rightarrow> None)"

definition cleanMessageText :: "string option \<Rightarrow> string option" where
  "cleanMessageText t =
     (case t of
        None \<Rightarrow> None
      | Some s \<Rightarrow>
          if s = [] then Some s
          else Some (trim (case matchMention s of None \<Rightarrow> s | Some r \<Rightarrow> r)))"

section \<open>One turn: processMessageRequest (lines 377 to 561)\<close>

definition thinkingText :: string where
  "thinkingText = [CHR 0xF0, CHR 0x9F, CHR 0xA4, CHR 0x94] @ '' Thinking...''"

definition bearerMissingText :: string where
  "bearerMissingText = [CHR 0xE2, CHR 0x9D, CHR 0x8C]
     @ '' Matt-GPT API is not configured. Please set MATT_GPT_BEARER_TOKEN environment variable.''"

definition openrouterMissingText :: string where
  "openrouterMissingText = [CHR 0xE2, CHR 0x9D, CHR 0x8C]
     @ '' OpenRouter API key is not configured. Please set OPENROUTER_API_KEY environment variable.''"

definition timeoutText :: string where
  "timeoutText = [CHR 0xE2, CHR 0x8F, CHR 0xB0] @ '' Request timed out. Please try again.''"

definition busyText :: string where
  "busyText = [CHR 0xF0, CHR 0x9F, CHR 0x9A, CHR 0xA6]
     @ '' Service is busy. Please wait a moment and try again.''"

definition unavailableText :: string where
  "unavailableText = [CHR 0xF0, CHR 0x9F, CHR 0xA4, CHR 0x96]
     @ '' Matt-GPT is temporarily unavailable. Please try again later.''"

definition wrongText :: string where
  "wrongText = [CHR 0xE2, CHR 0x9D, CHR 0x8C] @ '' Something went wrong. Please try again.''"

definition undefinedResponseText :: string where
  "undefinedResponseText =
     ''Cannot read properties of undefined (reading '' @ [CHR 0x27] @ ''query_id'' @ [CHR 0x27] @ '')''"

definition isThreadReply :: "message \<Rightarrow> bool" where
  "isThreadReply m = (truthy (thread_ts m) \<and> thread_ts m \<noteq> Some (ts m))"

definition threadAnchor :: "message \<Rightarrow> string" where
  "threadAnchor m = js_or_str (thread_ts m) (ts m)"

definition isSideNote :: "string option \<Rightarrow> bool" where
  "isSideNote cleanedText =
     (case cleanedText of
        None \<Rightarrow> False
      | Some c \<Rightarrow>
          c \<noteq> [] \<and>
          (let lowerText = toLowerCase c
           in startsWith lowerText ''side note'' \<or> startsWith lowerText ''sidenote''
              \<or> startsWith lowerText ''side-note''))"

text \<open>The loop of lines 448 to 458, over the reversed history.\<close>

fun scanHistory :: "message list \<Rightarrow> string option" where
  "scanHistory [] = None"
| "scanHistory (msg # rest) =
     (if truthy (bot_id msg)
      then (let existingConvId = extractConversationId msg
            in if truthy existingConvId then existingConvId else scanHistory rest)
      else scanHistory rest)"

definition threadArgs :: "message \<Rightarrow> replies_args" where
  "threadArgs m =
     \<lparr> replies_channel = channel m, replies_ts = thread_ts m, replies_limit = 50 \<rparr>"

text \<open>
  Lines 431 to 468, the History Reconstructor: the conversation id recovered from the
  thread, \<open>None\<close> for \<open>null\<close>. A rejected fetch is caught inside.
\<close>

definition locateConversation :: "world \<Rightarrow> message \<Rightarrow> event list \<Rightarrow> string option \<times> event list" where
  "locateConversation w m tr =
     (if isThreadReply m then
        (case conversations_replies w (length tr) (threadArgs m) of
           Inr threadHistory \<Rightarrow>
             (scanHistory (rev threadHistory), tr @ [ConversationsReplies (threadArgs m)])
         | Inl error \<Rightarrow> (None, tr @ [ConversationsReplies (threadArgs m)]))
      else (None, tr))"

definition apiContext :: "message \<Rightarrow> string option \<Rightarrow> api_context" where
  "apiContext m conversationId =
     \<lparr> context_thread_ts = threadAnchor m,
       context_channel = channel m,
       context_user_id = user m,
       context_conversation_id = (if truthy conversationId then conversationId else None) \<rparr>"

definition sayInThread :: "message \<Rightarrow> string \<Rightarrow> say_args" where
  "sayInThread m txt = \<lparr> say_text = txt, say_thread_ts = Some (threadAnchor m) \<rparr>"

text \<open>
  Lines 508 to 529: the reply is composed and written over the placeholder. The result is
  the exception that reaches the catch block, if any.
\<close>

definition composeAndUpdate ::
  "world \<Rightarrow> message \<Rightarrow> string option \<Rightarrow> say_result \<Rightarrow> chat_response \<Rightarrow> event list
     \<Rightarrow> js_error option \<times> event list" where
  "composeAndUpdate w m conversationId thinkingMsg mattGPTResponse tr =
     (let responseConversationId = js_or (conversation_id mattGPTResponse) conversationId;
          responsePayload = createMessageWithConversationId (response mattGPTResponse)
                              responseConversationId (threadAnchor m);
          args = \<lparr> update_channel = channel m, update_ts = posted_ts thinkingMsg,
                   update_payload = responsePayload \<rparr>
      in (case chat_update w (length tr) args of
            Inl error \<Rightarrow> (Some error, tr @ [ChatUpdate args])
          | Inr updateResult \<Rightarrow> (None, tr @ [ChatUpdate args])))"

text \<open>Lines 470 to 534, from the placeholder on.\<close>

definition thinkAndAnswer ::
  "config \<Rightarrow> world \<Rightarrow> message \<Rightarrow> string option \<Rightarrow> string option \<Rightarrow> event list
     \<Rightarrow> js_error option \<times> event list" where
  "thinkAndAnswer cfg w m cleanedText conversationId tr =
     (case say w (length tr) (sayInThread m thinkingText) of
        Inl error \<Rightarrow> (Some error, tr @ [Say (sayInThread m thinkingText)])
      | Inr thinkingMsg \<Rightarrow>
          (case callMattGPTWithRetry cfg w cleanedText (apiContext m conversationId) 3
                  (tr @ [Say (sayInThread m thinkingText)]) of
             (Returned mattGPTResponse, tr') \<Rightarrow>
               composeAndUpdate w m conversationId thinkingMsg mattGPTResponse tr'
           | (ReturnedUndefined, tr') \<Rightarrow> (Some \<lparr> err_message = undefinedResponseText \<rparr>, tr')
           | (Threw error, tr') \<Rightarrow> (Some error, tr')))"

text \<open>The try block, lines 405 to 535.\<close>

definition tryBlock ::
  "config \<Rightarrow> world \<Rightarrow> message \<Rightarrow> string option \<Rightarrow> event list \<Rightarrow> js_error option \<times> event list" where
  "tryBlock cfg w m cleanedText tr =
     (if \<not> truthy (MATT_GPT_BEARER_TOKEN cfg) then
        (case say w (length tr) (sayInThread m bearerMissingText) of
           Inl error \<Rightarrow> (Some error, tr @ [Say (sayInThread m bearerMissingText)])
         | Inr r \<Rightarrow> (None, tr @ [Say (sayInThread m bearerMissingText)]))
      else if \<not> truthy (OPENROUTER_API_KEY cfg) then
        (case say w (length tr) (sayInThread m openrouterMissingText) of
           Inl error \<Rightarrow> (Some error, tr @ [Say (sayInThread m openrouterMissingText)])
         | Inr r \<Rightarrow> (None, tr @ [Say (sayInThread m openrouterMissingText)]))
      else
        (case locateConversation w m tr of
           (conversationId, tr') \<Rightarrow> thinkAndAnswer cfg w m cleanedText conversationId tr'))"

text \<open>The catch block, lines 536 to 560; a failure of its own post is swallowed.\<close>

definition userMessage :: "js_error \<Rightarrow> string" where
  "userMessage error =
     (if js_includes (err_message error) ''timeout'' then timeoutText
      else if js_includes (err_message error) ''rate'' then busyText
      else if js_includes (err_message error) ''API'' then unavailableText
      else wrongText)"

definition catchBlock :: "message \<Rightarrow> js_error \<Rightarrow> event list \<Rightarrow> event list" where
  "catchBlock m error tr = tr @ [Say (sayInThread m (userMessage error))]"

definition processMessageRequest :: "config \<Rightarrow> world \<Rightarrow> message \<Rightarrow> event list \<Rightarrow> event list" where
  "processMessageRequest cfg w m tr =
     (let cleanedText = cleanMessageText (text m) in
      if isSideNote cleanedText then tr
      else (case tryBlock cfg w m cleanedText tr of
              (None, tr') \<Rightarrow> tr'
            | (Some error, tr') \<Rightarrow> catchBlock m error tr'))"

section \<open>The two entry points (lines 227 to 374)\<close>

definition redirectText :: "config \<Rightarrow> string" where
  "redirectText cfg =
     (if truthy (MONITORED_CHANNEL cfg)
      then [CHR 0xF0, CHR 0x9F, CHR 0x91, CHR 0x8B]
           @ '' Hi there! I only respond to messages in <#'' @ template_env (MONITORED_CHANNEL cfg)
           @ ''>. Please write your message there and I'' @ [CHR 0x27]
           @ ''ll respond in the thread!''
      else [CHR 0xF0, CHR 0x9F, CHR 0x91, CHR 0x8B]
           @ '' Hi there! I only respond to messages in channels, not DMs. ''
           @ ''Please write your message in a channel where I'' @ [CHR 0x27]
           @ ''m present and I'' @ [CHR 0x27] @ ''ll respond in the thread!'')"

definition notMonitored :: "config \<Rightarrow> string \<Rightarrow> bool" where
  "notMonitored cfg ch = (truthy (MONITORED_CHANNEL cfg) \<and> Some ch \<noteq> MONITORED_CHANNEL cfg)"

definition containsMention :: "config \<Rightarrow> message \<Rightarrow> bool" where
  "containsMention cfg m =
     (case text m of
        None \<Rightarrow> False
      | Some t \<Rightarrow>
          t \<noteq> [] \<and> js_includes t (''<@'' @ js_or_str (SLACK_BOT_USER_ID cfg) ''U09BR46BEV8'' @ ''>''))"

text \<open>Lines 299 to 333: the value of \<open>shouldRespond\<close> when line 336 reads it.\<close>

definition shouldRespond :: "config \<Rightarrow> world \<Rightarrow> message \<Rightarrow> event list \<Rightarrow> bool \<times> event list" where
  "shouldRespond cfg w m tr =
     (if containsMention cfg m then (False, tr)
      else if isThreadReply m then
        (case conversations_replies w (length tr) (threadArgs m) of
           Inr threadHistory \<Rightarrow>
             (list_ex (\<lambda>msg. truthy (bot_id msg)) threadHistory,
              tr @ [ConversationsReplies (threadArgs m)])
         | Inl error \<Rightarrow> (False, tr @ [ConversationsReplies (threadArgs m)]))
      else (False, tr))"

text \<open>
  The generic message handler. Its result is the exception it rejects with, if any (only
  the post of line 262 or 266 is outside every try), and the trace.
\<close>

definition messageHandler ::
  "config \<Rightarrow> world \<Rightarrow> message \<Rightarrow> event list \<Rightarrow> js_error option \<times> event list" where
  "messageHandler cfg w m tr =
     (if truthy (bot_id m) then (None, tr)
      else if truthy (subtype m) \<and> subtype m \<noteq> Some ''thread_broadcast'' then (None, tr)
      else if bot_profile m \<noteq> None then (None, tr)
      else if user m = Some ''USLACKBOT'' then (None, tr)
      else if isDMChannel (channel m) then
        (let args = \<lparr> say_text = redirectText cfg, say_thread_ts = None \<rparr>
         in case say w (length tr) args of
              Inl error \<Rightarrow> (Some error, tr @ [Say args])
            | Inr r \<Rightarrow> (None, tr @ [Say args]))
      else if isProbablyGroupDMOrPrivateChannel (channel m) \<and> notMonitored cfg (channel m)
        then (None, tr)
      else if notMonitored cfg (channel m) then (None, tr)
      else (case shouldRespond cfg w m tr of
              (False, tr') \<Rightarrow> (None, tr')
            | (True, tr') \<Rightarrow> (None, processMessageRequest cfg w m tr')))"

record app_mention_event =
  event_channel :: string
  event_user :: "string option"
  event_text :: "string option"
  event_ts :: string
  event_thread_ts :: "string option"

definition mockMessage :: "app_mention_event \<Rightarrow> message" where
  "mockMessage ev =
     \<lparr> blocks = None, channel = event_channel ev, user = event_user ev, text = event_text ev,
       ts = event_ts ev, thread_ts = event_thread_ts ev, bot_id = None, subtype = None,
       bot_profile = None \<rparr>"

definition appMentionHandler :: "config \<Rightarrow> world \<Rightarrow> app_mention_event \<Rightarrow> event list \<Rightarrow> event list" where
  "appMentionHandler cfg w ev tr =
     (if notMonitored cfg (event_channel ev) then tr
      else processMessageRequest cfg w (mockMessage ev) tr)"

section \<open>The side-note markers in the words of the specification\<close>

text \<open>
  A text begins with a marker, ignoring case, when it is at least as long as the marker and
  each of its first characters is the marker's character or the capital of that letter.
\<close>

definition spec_sameLetter :: "char \<Rightarrow> char \<Rightarrow> bool" where
  "spec_sameLetter a b =
     (a = b \<or> (97 \<le> (of_char b :: nat) \<and> (of_char b :: nat) \<le> 122
                \<and> (of_char a :: nat) + 32 = of_char b))"

definition spec_beginsIgnoringCase :: "string \<Rightarrow> string \<Rightarrow> bool" where
  "spec_beginsIgnoringCase s marker =
     (length marker \<le> length s \<and> list_all2 spec_sameLetter (take (length marker) s) marker)"

section \<open>Concrete inputs\<close>

text \<open>
  A configuration with channel \<open>C1\<close> monitored and both credentials set, messages of a
  thread anchored at \<open>100.1\<close>, and worlds in which every post and edit succeeds: the
  history fetch and the backend answer as given.
\<close>

definition exampleConfig :: config where
  "exampleConfig =
     \<lparr> SLACK_CHANNEL_ID = Some ''C1'', MATT_GPT_API_URL_env = None,
       MATT_GPT_BEARER_TOKEN = Some ''secret'', OPENROUTER_API_KEY = Some ''key'',
       SLACK_BOT_USER_ID = None \<rparr>"

definition humanMessage :: "string \<Rightarrow> string \<Rightarrow> string option \<Rightarrow> string \<Rightarrow> message" where
  "humanMessage ch t thread txt =
     \<lparr> blocks = None, channel = ch, user = Some ''U1'', text = Some txt, ts = t,
       thread_ts = thread, bot_id = None, subtype = None, bot_profile = None \<rparr>"

definition botMessage :: "string \<Rightarrow> string \<Rightarrow> message" where
  "botMessage t bid =
     \<lparr> blocks = Some [\<lparr> block_type = ''section'', block_id = Some bid,
                        block_text = Some \<lparr> text_type = ''mrkdwn'', text_text = ''ok'' \<rparr> \<rparr>],
       channel = ''C1'', user = Some ''U0'', text = Some ''ok'', ts = t,
       thread_ts = Some ''100.1'', bot_id = Some ''B0'', subtype = None, bot_profile = None \<rparr>"

definition exampleWorld ::
  "(js_error + message list) \<Rightarrow> (nat \<Rightarrow> js_error + chat_response) \<Rightarrow> world" where
  "exampleWorld history backend =
     \<lparr> conversations_replies = (\<lambda>n args. history),
       say = (\<lambda>n args. Inr \<lparr> posted_ts = ''200.0'' \<rparr>),
       chat_update = (\<lambda>n args. Inr ()),
       axios_post = (\<lambda>n url body conf. backend n) \<rparr>"

definition exampleReply :: message where
  "exampleReply = humanMessage ''C1'' ''100.5'' (Some ''100.1'') ''and then?''"

definition exampleMention :: "string \<Rightarrow> string \<Rightarrow> app_mention_event" where
  "exampleMention t txt =
     \<lparr> event_channel = ''C1'', event_user = Some ''U1'', event_text = Some txt, event_ts = t,
       event_thread_ts = None \<rparr>"

definition exampleThreadMention :: app_mention_event where
  "exampleThreadMention =
     \<lparr> event_channel = ''C1'', event_user = Some ''U1'',
       event_text = Some ''<@U09BR46BEV8> hello'', event_ts = ''100.5'',
       event_thread_ts = Some ''100.1'' \<rparr>"

definition exampleAnswer :: "string option \<Rightarrow> js_error + chat_response" where
  "exampleAnswer cid = Inr \<lparr> response = ''hi'', conversation_id = cid \<rparr>"

definition exampleFailure :: "js_error + chat_response" where
  "exampleFailure = Inl \<lparr> err_message = ''timeout of 30000ms exceeded'' \<rparr>"

section \<open>Properties of the codec\<close>

lemma js_replace_conv: "js_replace ''conv_'' [] (''conv_'' @ i) = i"
  by simp

lemma scanBlocks_conv:
  "block_id b = Some (''conv_'' @ i) \<Longrightarrow> scanBlocks (b # bs) = Some i"
  by (simp add: startsWith_def)

text \<open>
  C3 (codec round trip): for every reply text, every conversation id \<open>I\<close> and every thread
  anchor, decoding the message built by the encoder returns exactly \<open>I\<close>.
\<close>

theorem codec_round_trip:
  "extractConversationId (createMessageWithConversationId txt (Some I) threadTs) = Some I"
  unfolding extractConversationId_def createMessageWithConversationId_def
  by (simp add: startsWith_def template_def)


section \<open>Properties of the History Reconstructor\<close>

lemma scanHistory_none:
  "\<forall>x\<in>set xs. \<not> (truthy (bot_id x) \<and> truthy (extractConversationId x)) \<Longrightarrow>
   scanHistory xs = None"
  by (induction xs) (auto simp: Let_def)

lemma scanHistory_first:
  "\<forall>x\<in>set newer. \<not> (truthy (bot_id x) \<and> truthy (extractConversationId x)) \<Longrightarrow>
   truthy (bot_id msg) \<Longrightarrow> truthy (extractConversationId msg) \<Longrightarrow>
   scanHistory (newer @ msg # older) = extractConversationId msg"
  by (induction newer) (auto simp: Let_def)

lemma scanHistory_recent:
  assumes "\<forall>x\<in>set newer. \<not> (truthy (bot_id x) \<and> truthy (extractConversationId x))"
    and "truthy (bot_id msg)" and "truthy (extractConversationId msg)"
  shows "scanHistory (rev (older @ msg # newer)) = extractConversationId msg"
  using scanHistory_first [of "rev newer" msg "rev older"] assms by simp

lemma locateConversation_recent:
  assumes "isThreadReply m"
    and "conversations_replies w (length tr) (threadArgs m) = Inr (older @ msg # newer)"
    and "truthy (bot_id msg)" and "truthy (extractConversationId msg)"
    and "\<forall>x\<in>set newer. \<not> (truthy (bot_id x) \<and> truthy (extractConversationId x))"
  shows "locateConversation w m tr
           = (extractConversationId msg, tr @ [ConversationsReplies (threadArgs m)])"
  using assms(1,2) scanHistory_recent [OF assms(5,3,4), of older]
  by (simp add: locateConversation_def)

text \<open>
  C4 (conversation location): for a thread reply exactly one fetch is made, with limit 50,
  and only its answer is scanned; what the platform returns for that limit is the world's
  part. The answer lists the thread oldest first and is scanned from its end: the result is
  the decoded id of the most recent message that carries a bot id and a non-empty embedded
  id. The result is null when the fetch is rejected, when no such message is in the answer,
  and so when no message of the thread was written by a bot.
\<close>

theorem locateConversation_window:
  "(isThreadReply m \<longrightarrow>
      snd (locateConversation w m tr) =
        tr @ [ConversationsReplies \<lparr> replies_channel = channel m, replies_ts = thread_ts m,
                                     replies_limit = 50 \<rparr>])
   \<and> (\<forall>error. conversations_replies w (length tr) (threadArgs m) = Inl error \<longrightarrow>
         fst (locateConversation w m tr) = None)
   \<and> (\<forall>older msg newer.
         isThreadReply m
         \<and> conversations_replies w (length tr) (threadArgs m) = Inr (older @ msg # newer)
         \<and> truthy (bot_id msg) \<and> truthy (extractConversationId msg)
         \<and> (\<forall>x\<in>set newer. \<not> (truthy (bot_id x) \<and> truthy (extractConversationId x)))
         \<longrightarrow> fst (locateConversation w m tr) = extractConversationId msg)
   \<and> (\<forall>h. conversations_replies w (length tr) (threadArgs m) = Inr h
         \<and> (\<forall>x\<in>set h. \<not> (truthy (bot_id x) \<and> truthy (extractConversationId x)))
         \<longrightarrow> fst (locateConversation w m tr) = None)
   \<and> (\<forall>h. conversations_replies w (length tr) (threadArgs m) = Inr h
         \<and> (\<forall>x\<in>set h. \<not> truthy (bot_id x))
         \<longrightarrow> fst (locateConversation w m tr) = None)"
proof (intro conjI allI impI)
  assume "isThreadReply m"
  then show "snd (locateConversation w m tr) =
        tr @ [ConversationsReplies \<lparr> replies_channel = channel m, replies_ts = thread_ts m,
                                     replies_limit = 50 \<rparr>]"
    by (simp add: locateConversation_def threadArgs_def split: sum.splits)
next
  fix error
  assume "conversations_replies w (length tr) (threadArgs m) = Inl error"
  then show "fst (locateConversation w m tr) = None"
    by (simp add: locateConversation_def)
next
  fix older msg newer
  assume a: "isThreadReply m
         \<and> conversations_replies w (length tr) (threadArgs m) = Inr (older @ msg # newer)
         \<and> truthy (bot_id msg) \<and> truthy (extractConversationId msg)
         \<and> (\<forall>x\<in>set newer. \<not> (truthy (bot_id x) \<and> truthy (extractConversationId x)))"
  then show "fst (locateConversation w m tr) = extractConversationId msg"
    using locateConversation_recent [of m w tr older msg newer] by simp
next
  fix h
  assume a: "conversations_replies w (length tr) (threadArgs m) = Inr h
         \<and> (\<forall>x\<in>set h. \<not> (truthy (bot_id x) \<and> truthy (extractConversationId x)))"
  then have "scanHistory (rev h) = None"
    using scanHistory_none [of "rev h"] by simp
  with a show "fst (locateConversation w m tr) = None"
    by (simp add: locateConversation_def)
next
  fix h
  assume a: "conversations_replies w (length tr) (threadArgs m) = Inr h
         \<and> (\<forall>x\<in>set h. \<not> truthy (bot_id x))"
  then have "scanHistory (rev h) = None"
    using scanHistory_none [of "rev h"] by simp
  with a show "fst (locateConversation w m tr) = None"
    by (simp add: locateConversation_def)
qed

lemma botMessage_embeds:
  "truthy (bot_id (botMessage t (''conv_'' @ i)))"
  "extractConversationId (botMessage t (''conv_'' @ i)) = Some i"
  by (simp_all add: botMessage_def truthy_def extractConversationId_def startsWith_def)

lemma humanMessage_no_bot: "\<not> truthy (bot_id (humanMessage ch t thread txt))"
  by (simp add: humanMessage_def truthy_def)

lemma humanMessage_thread:
  "thread \<noteq> [] \<Longrightarrow> thread \<noteq> t \<Longrightarrow> isThreadReply (humanMessage ch t (Some thread) txt)"
  by (simp add: humanMessage_def isThreadReply_def truthy_def)

text \<open>
  A thread of three messages whose second one is a reply of the bot embedding
  \<open>abc-123\<close>: the id is located.
\<close>

theorem locateConversation_window_witness:
  "isThreadReply (humanMessage ''C1'' ''100.5'' (Some ''100.1'') ''and then?'')
   \<and> fst (locateConversation
        (exampleWorld (Inr ([humanMessage ''C1'' ''100.1'' None ''hello'']
                            @ botMessage ''100.2'' ''conv_abc-123''
                            # [humanMessage ''C1'' ''100.3'' (Some ''100.1'') ''more'']))
                      (\<lambda>n. exampleAnswer None))
        (humanMessage ''C1'' ''100.5'' (Some ''100.1'') ''and then?'') [])
      = Some ''abc-123''"
proof -
  let ?m = "humanMessage ''C1'' ''100.5'' (Some ''100.1'') ''and then?''"
  let ?older = "[humanMessage ''C1'' ''100.1'' None ''hello'']"
  let ?newer = "[humanMessage ''C1'' ''100.3'' (Some ''100.1'') ''more'']"
  let ?bot = "botMessage ''100.2'' ''conv_abc-123''"
  let ?w = "exampleWorld (Inr (?older @ ?bot # ?newer)) (\<lambda>n. exampleAnswer None)"
  have t: "isThreadReply ?m"
    by (simp add: humanMessage_thread)
  have f: "conversations_replies ?w (length []) (threadArgs ?m) = Inr (?older @ ?bot # ?newer)"
    by (simp add: exampleWorld_def)
  have b: "truthy (bot_id ?bot)" "extractConversationId ?bot = Some ''abc-123''"
    using botMessage_embeds [of "''100.2''" "''abc-123''"] by simp_all
  have n: "\<forall>x\<in>set ?newer. \<not> (truthy (bot_id x) \<and> truthy (extractConversationId x))"
    by (simp add: humanMessage_no_bot)
  from locateConversation_window [of ?m ?w "[]", THEN conjunct2, THEN conjunct2,
      THEN conjunct1, rule_format, of ?older ?bot ?newer] t f b n
  have "fst (locateConversation ?w ?m []) = Some ''abc-123''"
    by (simp add: truthy_def)
  with t show ?thesis by simp
qed

section \<open>Properties of the backend client\<close>

lemma loop_success:
  "attempt \<le> maxRetries \<Longrightarrow>
   axios_post w n (MATT_GPT_API_URL cfg @ ''/chat'') (requestPayload cfg msg ctx)
     (requestConfig cfg) = Inr r \<Longrightarrow>
   n = length tr \<Longrightarrow>
   tr' = tr @ [AxiosPost (MATT_GPT_API_URL cfg @ ''/chat'') (requestPayload cfg msg ctx)
                 (requestConfig cfg)] \<Longrightarrow>
   callMattGPT_loop cfg w msg ctx maxRetries attempt tr = (Returned r, tr')"
  by (subst callMattGPT_loop.simps) (simp add: Let_def)

lemma loop_last_failure:
  "0 < maxRetries \<Longrightarrow>
   axios_post w n (MATT_GPT_API_URL cfg @ ''/chat'') (requestPayload cfg msg ctx)
     (requestConfig cfg) = Inl e \<Longrightarrow>
   n = length tr \<Longrightarrow>
   tr' = tr @ [AxiosPost (MATT_GPT_API_URL cfg @ ''/chat'') (requestPayload cfg msg ctx)
                 (requestConfig cfg)] \<Longrightarrow>
   txt = ''Matt-GPT API failed after '' @ showNat maxRetries @ '' attempts: '' @ err_message e \<Longrightarrow>
   callMattGPT_loop cfg w msg ctx maxRetries maxRetries tr = (Threw \<lparr> err_message = txt \<rparr>, tr')"
  by (subst callMattGPT_loop.simps) (simp add: Let_def)

lemma loop_retry:
  "attempt < maxRetries \<Longrightarrow>
   axios_post w n (MATT_GPT_API_URL cfg @ ''/chat'') (requestPayload cfg msg ctx)
     (requestConfig cfg) = Inl e \<Longrightarrow>
   n = length tr \<Longrightarrow>
   following = attempt + 1 \<Longrightarrow>
   tr' = tr @ [AxiosPost (MATT_GPT_API_URL cfg @ ''/chat'') (requestPayload cfg msg ctx)
                 (requestConfig cfg),
               SetTimeout (2 ^ attempt * 1000)] \<Longrightarrow>
   callMattGPT_loop cfg w msg ctx maxRetries attempt tr =
     callMattGPT_loop cfg w msg ctx maxRetries following tr'"
  by (subst callMattGPT_loop.simps) (simp add: Let_def)

lemma showNat_3: "showNat 3 = ''3''"
  by (simp add: showNat.simps digit_def)

text \<open>
  The four runs of a call with three attempts. \<open>answer k\<close> is the backend's answer to a
  request sent \<open>k\<close> events after the call began.
\<close>

lemma retry_runs:
  fixes cfg w msg ctx tr
  defines "url \<equiv> MATT_GPT_API_URL cfg @ ''/chat''"
  defines "post \<equiv> AxiosPost url (requestPayload cfg msg ctx) (requestConfig cfg)"
  defines "answer \<equiv> \<lambda>k. axios_post w (length tr + k) url (requestPayload cfg msg ctx)
                            (requestConfig cfg)"
  shows "answer 0 = Inr r \<Longrightarrow>
           callMattGPTWithRetry cfg w msg ctx 3 tr = (Returned r, tr @ [post])"
    and "answer 0 = Inl e1 \<Longrightarrow> answer 2 = Inr r \<Longrightarrow>
           callMattGPTWithRetry cfg w msg ctx 3 tr
             = (Returned r, tr @ [post, SetTimeout 2000, post])"
    and "answer 0 = Inl e1 \<Longrightarrow> answer 2 = Inl e2 \<Longrightarrow> answer 4 = Inr r \<Longrightarrow>
           callMattGPTWithRetry cfg w msg ctx 3 tr
             = (Returned r, tr @ [post, SetTimeout 2000, post, SetTimeout 4000, post])"
    and "answer 0 = Inl e1 \<Longrightarrow> answer 2 = Inl e2 \<Longrightarrow> answer 4 = Inl e3 \<Longrightarrow>
           callMattGPTWithRetry cfg w msg ctx 3 tr
             = (Threw \<lparr> err_message = ''Matt-GPT API failed after 3 attempts: ''
                                       @ err_message e3 \<rparr>,
                tr @ [post, SetTimeout 2000, post, SetTimeout 4000, post])"
proof -
  note defs = url_def post_def answer_def
  have start: "callMattGPTWithRetry cfg w msg ctx 3 tr = callMattGPT_loop cfg w msg ctx 3 1 tr"
    by (simp only: callMattGPTWithRetry_def)
  have r1: "callMattGPT_loop cfg w msg ctx 3 1 tr
      = callMattGPT_loop cfg w msg ctx 3 2 (tr @ [post, SetTimeout 2000])"
    if "answer 0 = Inl e" for e
    by (rule loop_retry [where e = e and n = "length tr"]) (use that in \<open>simp_all add: defs\<close>)
  have r2: "callMattGPT_loop cfg w msg ctx 3 2 (tr @ [post, SetTimeout 2000])
      = callMattGPT_loop cfg w msg ctx 3 3 (tr @ [post, SetTimeout 2000, post, SetTimeout 4000])"
    if "answer 2 = Inl e" for e
    by (rule loop_retry [where e = e and n = "length tr + 2"]) (use that in \<open>simp_all add: defs\<close>)
  show "callMattGPTWithRetry cfg w msg ctx 3 tr = (Returned r, tr @ [post])"
    if "answer 0 = Inr r"
    unfolding start
    by (rule loop_success [where n = "length tr"]) (use that in \<open>simp_all add: defs\<close>)
  show "callMattGPTWithRetry cfg w msg ctx 3 tr = (Returned r, tr @ [post, SetTimeout 2000, post])"
    if "answer 0 = Inl e1" "answer 2 = Inr r"
    unfolding start r1 [OF that(1)]
    by (rule loop_success [where n = "length tr + 2"]) (use that in \<open>simp_all add: defs\<close>)
  show "callMattGPTWithRetry cfg w msg ctx 3 tr
      = (Returned r, tr @ [post, SetTimeout 2000, post, SetTimeout 4000, post])"
    if "answer 0 = Inl e1" "answer 2 = Inl e2" "answer 4 = Inr r"
    unfolding start r1 [OF that(1)] r2 [OF that(2)]
    by (rule loop_success [where n = "length tr + 4"]) (use that in \<open>simp_all add: defs\<close>)
  show "callMattGPTWithRetry cfg w msg ctx 3 tr
      = (Threw \<lparr> err_message = ''Matt-GPT API failed after 3 attempts: '' @ err_message e3 \<rparr>,
         tr @ [post, SetTimeout 2000, post, SetTimeout 4000, post])"
    if "answer 0 = Inl e1" "answer 2 = Inl e2" "answer 4 = Inl e3"
    unfolding start r1 [OF that(1)] r2 [OF that(2)]
    by (rule loop_last_failure [where n = "length tr + 4" and e = e3])
       (use that in \<open>simp_all add: defs showNat_3\<close>)
qed

text \<open>
  C5 (backend retry policy): a call with three attempts sends at most three requests, each
  with a timeout of 30000 ms. After a failed first attempt the next event is a wait of
  2000 ms, after a failed second attempt a wait of 4000 ms, each followed by the next
  request. After a failed third attempt nothing more is done: the call throws an error whose
  message carries the number of attempts and the message of the last failure. Two failures
  followed by a success return the answer after exactly the waits 2000 and 4000.
\<close>

theorem callMattGPTWithRetry_policy:
  "let url = MATT_GPT_API_URL cfg @ ''/chat'';
       post = AxiosPost url (requestPayload cfg msg ctx) (requestConfig cfg);
       answer = (\<lambda>k. axios_post w (length tr + k) url (requestPayload cfg msg ctx)
                        (requestConfig cfg))
   in timeout (requestConfig cfg) = 30000
    \<and> (\<forall>r. answer 0 = Inr r \<longrightarrow>
          callMattGPTWithRetry cfg w msg ctx 3 tr = (Returned r, tr @ [post]))
    \<and> (\<forall>e1 r. answer 0 = Inl e1 \<and> answer 2 = Inr r \<longrightarrow>
          callMattGPTWithRetry cfg w msg ctx 3 tr
            = (Returned r, tr @ [post, SetTimeout 2000, post]))
    \<and> (\<forall>e1 e2 r. answer 0 = Inl e1 \<and> answer 2 = Inl e2 \<and> answer 4 = Inr r \<longrightarrow>
          callMattGPTWithRetry cfg w msg ctx 3 tr
            = (Returned r, tr @ [post, SetTimeout 2000, post, SetTimeout 4000, post]))
    \<and> (\<forall>e1 e2 e3. answer 0 = Inl e1 \<and> answer 2 = Inl e2 \<and> answer 4 = Inl e3 \<longrightarrow>
          callMattGPTWithRetry cfg w msg ctx 3 tr
            = (Threw \<lparr> err_message = ''Matt-GPT API failed after 3 attempts: ''
                                      @ err_message e3 \<rparr>,
               tr @ [post, SetTimeout 2000, post, SetTimeout 4000, post]))"
  unfolding Let_def
  using retry_runs [of w tr cfg msg ctx]
  by (auto simp: requestConfig_def)

text \<open>
  A backend that times out until the fifth event answers the third attempt.
\<close>

theorem callMattGPTWithRetry_policy_witness:
  "axios_post (exampleWorld (Inr []) (\<lambda>n. if n < 4 then exampleFailure else exampleAnswer None))
      2 (MATT_GPT_API_URL exampleConfig @ ''/chat'')
      (requestPayload exampleConfig (Some ''hello'')
         (apiContext (humanMessage ''C1'' ''100.1'' None ''hello'') None))
      (requestConfig exampleConfig)
     = Inl \<lparr> err_message = ''timeout of 30000ms exceeded'' \<rparr>
   \<and> callMattGPTWithRetry exampleConfig
        (exampleWorld (Inr []) (\<lambda>n. if n < 4 then exampleFailure else exampleAnswer None))
        (Some ''hello'') (apiContext (humanMessage ''C1'' ''100.1'' None ''hello'') None) 3 []
     = (Returned \<lparr> response = ''hi'', conversation_id = None \<rparr>,
        [AxiosPost (MATT_GPT_API_URL exampleConfig @ ''/chat'')
           (requestPayload exampleConfig (Some ''hello'')
              (apiContext (humanMessage ''C1'' ''100.1'' None ''hello'') None))
           (requestConfig exampleConfig),
         SetTimeout 2000,
         AxiosPost (MATT_GPT_API_URL exampleConfig @ ''/chat'')
           (requestPayload exampleConfig (Some ''hello'')
              (apiContext (humanMessage ''C1'' ''100.1'' None ''hello'') None))
           (requestConfig exampleConfig),
         SetTimeout 4000,
         AxiosPost (MATT_GPT_API_URL exampleConfig @ ''/chat'')
           (requestPayload exampleConfig (Some ''hello'')
              (apiContext (humanMessage ''C1'' ''100.1'' None ''hello'') None))
           (requestConfig exampleConfig)])"
  using callMattGPTWithRetry_policy
    [where cfg = exampleConfig and tr = "[]" and msg = "Some ''hello''"
       and ctx = "apiContext (humanMessage ''C1'' ''100.1'' None ''hello'') None"
       and w = "exampleWorld (Inr []) (\<lambda>n. if n < 4 then exampleFailure else exampleAnswer None)",
     unfolded Let_def, THEN conjunct2, THEN conjunct2, THEN conjunct2, THEN conjunct1,
     rule_format,
     of "\<lparr> err_message = ''timeout of 30000ms exceeded'' \<rparr>"
        "\<lparr> err_message = ''timeout of 30000ms exceeded'' \<rparr>"
        "\<lparr> response = ''hi'', conversation_id = None \<rparr>"]
  by (simp add: exampleWorld_def exampleFailure_def exampleAnswer_def)

section \<open>Properties of one turn\<close>

lemma tryBlock_configured:
  "truthy (MATT_GPT_BEARER_TOKEN cfg) \<Longrightarrow> truthy (OPENROUTER_API_KEY cfg) \<Longrightarrow>
   locateConversation w m tr = (cid, tr1) \<Longrightarrow>
   tryBlock cfg w m cleanedText tr = thinkAndAnswer cfg w m cleanedText cid tr1"
  by (simp add: tryBlock_def)

lemma thinkAndAnswer_answered:
  "say w (length tr1) (sayInThread m thinkingText) = Inr thinkingMsg \<Longrightarrow>
   callMattGPTWithRetry cfg w cleanedText (apiContext m cid) 3
     (tr1 @ [Say (sayInThread m thinkingText)]) = (Returned r, tr3) \<Longrightarrow>
   thinkAndAnswer cfg w m cleanedText cid tr1 = composeAndUpdate w m cid thinkingMsg r tr3"
  by (simp add: thinkAndAnswer_def)

lemma thinkAndAnswer_threw:
  "say w (length tr1) (sayInThread m thinkingText) = Inr thinkingMsg \<Longrightarrow>
   callMattGPTWithRetry cfg w cleanedText (apiContext m cid) 3
     (tr1 @ [Say (sayInThread m thinkingText)]) = (Threw e, tr3) \<Longrightarrow>
   thinkAndAnswer cfg w m cleanedText cid tr1 = (Some e, tr3)"
  by (simp add: thinkAndAnswer_def)

lemma processMessageRequest_answered:
  assumes "\<not> isSideNote (cleanMessageText (text m))"
    and "truthy (MATT_GPT_BEARER_TOKEN cfg)" and "truthy (OPENROUTER_API_KEY cfg)"
    and "locateConversation w m tr = (cid, tr1)"
    and "say w (length tr1) (sayInThread m thinkingText) = Inr thinkingMsg"
    and "callMattGPTWithRetry cfg w (cleanMessageText (text m)) (apiContext m cid) 3
           (tr1 @ [Say (sayInThread m thinkingText)]) = (Returned r, tr3)"
  shows "processMessageRequest cfg w m tr =
           tr3 @ ChatUpdate \<lparr> update_channel = channel m, update_ts = posted_ts thinkingMsg,
                   update_payload = createMessageWithConversationId (response r)
                          (js_or (conversation_id r) cid) (threadAnchor m) \<rparr>
             # (case chat_update w (length tr3)
                       \<lparr> update_channel = channel m, update_ts = posted_ts thinkingMsg,
                   update_payload = createMessageWithConversationId (response r)
                          (js_or (conversation_id r) cid) (threadAnchor m) \<rparr> of
                  Inl e \<Rightarrow> [Say (sayInThread m (userMessage e))]
                | Inr u \<Rightarrow> [])"
  using assms(1)
  by (simp add: processMessageRequest_def tryBlock_configured [OF assms(2,3,4)]
        thinkAndAnswer_answered [OF assms(5,6)] composeAndUpdate_def catchBlock_def Let_def
      split: sum.splits)

lemma processMessageRequest_threw:
  assumes "\<not> isSideNote (cleanMessageText (text m))"
    and "truthy (MATT_GPT_BEARER_TOKEN cfg)" and "truthy (OPENROUTER_API_KEY cfg)"
    and "locateConversation w m tr = (cid, tr1)"
    and "say w (length tr1) (sayInThread m thinkingText) = Inr thinkingMsg"
    and "callMattGPTWithRetry cfg w (cleanMessageText (text m)) (apiContext m cid) 3
           (tr1 @ [Say (sayInThread m thinkingText)]) = (Threw e, tr3)"
  shows "processMessageRequest cfg w m tr = tr3 @ [Say (sayInThread m (userMessage e))]"
  using assms(1)
  by (simp add: processMessageRequest_def tryBlock_configured [OF assms(2,3,4)]
        thinkAndAnswer_threw [OF assms(5,6)] catchBlock_def Let_def)

lemma extract_created:
  "extractConversationId (createMessageWithConversationId txt cid threadTs) = Some (template cid)"
  unfolding extractConversationId_def createMessageWithConversationId_def
  by (simp add: startsWith_def)

lemma extract_created_truthy:
  "truthy cid \<Longrightarrow> extractConversationId (createMessageWithConversationId txt cid threadTs) = cid"
  by (cases cid) (simp_all add: extract_created template_def truthy_def)

lemma exampleWorld_simps:
  "conversations_replies (exampleWorld h b) n a = h"
  "say (exampleWorld h b) n sa = Inr \<lparr> posted_ts = ''200.0'' \<rparr>"
  "chat_update (exampleWorld h b) n ua = Inr ()"
  "axios_post (exampleWorld h b) n url body conf = b n"
  by (simp_all add: exampleWorld_def)

lemma exampleConfig_truthy:
  "truthy (MATT_GPT_BEARER_TOKEN exampleConfig)" "truthy (OPENROUTER_API_KEY exampleConfig)"
  "\<not> notMonitored exampleConfig ''C1''"
  by (simp_all add: exampleConfig_def truthy_def notMonitored_def MONITORED_CHANNEL_def)

lemma exampleReply_simps:
  "text exampleReply = Some ''and then?''"
  "isThreadReply exampleReply"
  "channel exampleReply = ''C1''"
  "threadAnchor exampleReply = ''100.1''"
  by (simp_all add: exampleReply_def humanMessage_def isThreadReply_def truthy_def
        threadAnchor_def js_or_str_def)

lemma exampleReply_clean:
  "cleanMessageText (Some ''and then?'') = Some ''and then?''"
  "\<not> isSideNote (cleanMessageText (Some ''and then?''))"
  by code_simp+

lemma example_turn:
  assumes "\<not> isSideNote (cleanMessageText (text m))"
    and "locateConversation (exampleWorld h b) m tr = (cid, tr1)"
    and "b (Suc (length tr1)) = Inr r"
  shows "processMessageRequest exampleConfig (exampleWorld h b) m tr
         = tr1 @ [Say (sayInThread m thinkingText),
                  AxiosPost (MATT_GPT_API_URL exampleConfig @ ''/chat'')
                    (requestPayload exampleConfig (cleanMessageText (text m)) (apiContext m cid))
                    (requestConfig exampleConfig),
                  ChatUpdate \<lparr> update_channel = channel m, update_ts = ''200.0'',
                    update_payload = createMessageWithConversationId (response r)
                                       (js_or (conversation_id r) cid) (threadAnchor m) \<rparr>]"
proof -
  let ?tr2 = "tr1 @ [Say (sayInThread m thinkingText)]"
  let ?post = "AxiosPost (MATT_GPT_API_URL exampleConfig @ ''/chat'')
                    (requestPayload exampleConfig (cleanMessageText (text m)) (apiContext m cid))
                    (requestConfig exampleConfig)"
  have s: "say (exampleWorld h b) (length tr1) (sayInThread m thinkingText)
             = Inr \<lparr> posted_ts = ''200.0'' \<rparr>"
    by (simp add: exampleWorld_simps)
  have c: "callMattGPTWithRetry exampleConfig (exampleWorld h b) (cleanMessageText (text m))
             (apiContext m cid) 3 ?tr2 = (Returned r, ?tr2 @ [?post])"
    by (rule retry_runs(1)) (simp add: exampleWorld_simps assms(3))
  show ?thesis
    using processMessageRequest_answered [OF assms(1) exampleConfig_truthy(1,2) assms(2) s c]
    by (simp add: exampleWorld_simps)
qed

lemma exampleMention_simps:
  "text (mockMessage (exampleMention t txt)) = Some txt"
  "channel (mockMessage (exampleMention t txt)) = ''C1''"
  "\<not> isThreadReply (mockMessage (exampleMention t txt))"
  "threadAnchor (mockMessage (exampleMention t txt)) = t"
  "event_channel (exampleMention t txt) = ''C1''"
  by (simp_all add: exampleMention_def mockMessage_def isThreadReply_def truthy_def
        threadAnchor_def js_or_str_def)

lemma example_mentions:
  "cleanMessageText (Some ''<@U09BR46BEV8> hello'') = Some ''hello''"
  "cleanMessageText (Some ''<@U09BR46BEV8> bye'') = Some ''bye''"
  "\<not> isSideNote (Some ''hello'')"
  "\<not> isSideNote (Some ''bye'')"
  "cleanMessageText (Some ''<@U09BR46BEV8> side note: x'') = Some ''side note: x''"
  "isSideNote (Some ''side note: x'')"
  by code_simp+

text \<open>
  C1 (continuity, amended): in a thread reply that is processed with both credentials set,
  let \<open>I\<close> be the non-empty id embedded in the most recent bot-authored message of the
  fetched history that embeds a non-empty id. When the placeholder is posted and the backend
  call returns \<open>r\<close>, the reply written over the placeholder embeds the id of \<open>r\<close> if
  \<open>r\<close> carries a non-empty one, and \<open>I\<close> otherwise.
\<close>

theorem continuity_most_recent:
  assumes "\<not> isSideNote (cleanMessageText (text m))"
    and "truthy (MATT_GPT_BEARER_TOKEN cfg)" and "truthy (OPENROUTER_API_KEY cfg)"
    and "isThreadReply m"
    and "conversations_replies w (length tr) (threadArgs m) = Inr (older @ msg # newer)"
    and "truthy (bot_id msg)" and "extractConversationId msg = Some I" and "I \<noteq> []"
    and "\<forall>x\<in>set newer. \<not> (truthy (bot_id x) \<and> truthy (extractConversationId x))"
    and "say w (Suc (length tr)) (sayInThread m thinkingText) = Inr thinkingMsg"
    and "callMattGPTWithRetry cfg w (cleanMessageText (text m)) (apiContext m (Some I)) 3
           (tr @ [ConversationsReplies (threadArgs m), Say (sayInThread m thinkingText)])
         = (Returned r, tr3)"
  shows "\<exists>p rest.
           processMessageRequest cfg w m tr
             = tr3 @ ChatUpdate \<lparr> update_channel = channel m, update_ts = posted_ts thinkingMsg,
                                  update_payload = p \<rparr> # rest
           \<and> extractConversationId p
               = (if truthy (conversation_id r) then conversation_id r else Some I)"
proof -
  have t: "truthy (extractConversationId msg)"
    using assms(7,8) by (simp add: truthy_def)
  have loc: "locateConversation w m tr = (Some I, tr @ [ConversationsReplies (threadArgs m)])"
    using locateConversation_recent [OF assms(4,5,6) t assms(9)] assms(7) by simp
  have s: "say w (length (tr @ [ConversationsReplies (threadArgs m)])) (sayInThread m thinkingText)
             = Inr thinkingMsg"
    using assms(10) by simp
  have c: "callMattGPTWithRetry cfg w (cleanMessageText (text m)) (apiContext m (Some I)) 3
           ((tr @ [ConversationsReplies (threadArgs m)]) @ [Say (sayInThread m thinkingText)])
         = (Returned r, tr3)"
    using assms(11) by simp
  have e: "extractConversationId (createMessageWithConversationId (response r)
              (js_or (conversation_id r) (Some I)) (threadAnchor m))
           = (if truthy (conversation_id r) then conversation_id r else Some I)"
    using assms(8) extract_created_truthy [of "js_or (conversation_id r) (Some I)"]
    by (simp add: js_or_def truthy_def)
  show ?thesis
    using processMessageRequest_answered [OF assms(1,2,3) loc s c] e by blast
qed

text \<open>
  The same thread, answered by a backend that supplies no id: the reply embeds
  \<open>abc-123\<close>.
\<close>

theorem continuity_most_recent_witness:
  "\<exists>p rest.
     processMessageRequest exampleConfig
       (exampleWorld (Inr ([humanMessage ''C1'' ''100.1'' None ''hello'']
                           @ botMessage ''100.2'' ''conv_abc-123''
                           # [humanMessage ''C1'' ''100.3'' (Some ''100.1'') ''more'']))
                     (\<lambda>n. exampleAnswer None))
       exampleReply []
     = [ConversationsReplies (threadArgs exampleReply),
        Say (sayInThread exampleReply thinkingText),
        AxiosPost (MATT_GPT_API_URL exampleConfig @ ''/chat'')
          (requestPayload exampleConfig (Some ''and then?'')
             (apiContext exampleReply (Some ''abc-123'')))
          (requestConfig exampleConfig)]
       @ ChatUpdate \<lparr> update_channel = ''C1'', update_ts = ''200.0'', update_payload = p \<rparr> # rest
     \<and> extractConversationId p = Some ''abc-123''"
proof -
  let ?older = "[humanMessage ''C1'' ''100.1'' None ''hello'']"
  let ?newer = "[humanMessage ''C1'' ''100.3'' (Some ''100.1'') ''more'']"
  let ?bot = "botMessage ''100.2'' ''conv_abc-123''"
  let ?w = "exampleWorld (Inr (?older @ ?bot # ?newer)) (\<lambda>n. exampleAnswer None)"
  let ?tr2 = "[] @ [ConversationsReplies (threadArgs exampleReply),
                    Say (sayInThread exampleReply thinkingText)]"
  let ?post = "AxiosPost (MATT_GPT_API_URL exampleConfig @ ''/chat'')
          (requestPayload exampleConfig (cleanMessageText (text exampleReply))
             (apiContext exampleReply (Some ''abc-123'')))
          (requestConfig exampleConfig)"
  have h1: "\<not> isSideNote (cleanMessageText (text exampleReply))"
    unfolding exampleReply_simps by (rule exampleReply_clean(2))
  have h5: "conversations_replies ?w (length []) (threadArgs exampleReply)
              = Inr (?older @ ?bot # ?newer)"
    by (simp add: exampleWorld_simps)
  have h7: "truthy (bot_id ?bot)" "extractConversationId ?bot = Some ''abc-123''"
    using botMessage_embeds [of "''100.2''" "''abc-123''"] by simp_all
  have h9: "\<forall>x\<in>set ?newer. \<not> (truthy (bot_id x) \<and> truthy (extractConversationId x))"
    by (simp add: humanMessage_no_bot)
  have h10: "say ?w (Suc (length [])) (sayInThread exampleReply thinkingText)
               = Inr \<lparr> posted_ts = ''200.0'' \<rparr>"
    by (simp add: exampleWorld_simps)
  have h11: "callMattGPTWithRetry exampleConfig ?w (cleanMessageText (text exampleReply))
               (apiContext exampleReply (Some ''abc-123'')) 3 ?tr2
             = (Returned \<lparr> response = ''hi'', conversation_id = None \<rparr>, ?tr2 @ [?post])"
    by (rule retry_runs(1)) (simp add: exampleWorld_simps exampleAnswer_def)
  from continuity_most_recent [OF h1 exampleConfig_truthy(1,2) exampleReply_simps(2) h5 h7 _ h9
      h10 h11]
  show ?thesis
    by (simp add: truthy_def exampleReply_simps exampleReply_clean(1))
qed


text \<open>
  A thread in which two replies of the bot embed different ids, \<open>abc-123\<close> and then
  \<open>xyz-789\<close>, and a backend that supplies no id: a prior bot message embeds
  \<open>abc-123\<close>, yet the reply embeds \<open>xyz-789\<close>.
\<close>

theorem continuity_counterexample:
  "truthy (bot_id (botMessage ''100.2'' ''conv_abc-123''))
   \<and> extractConversationId (botMessage ''100.2'' ''conv_abc-123'') = Some ''abc-123''
   \<and> processMessageRequest exampleConfig
       (exampleWorld (Inr [humanMessage ''C1'' ''100.1'' None ''hello'',
                           botMessage ''100.2'' ''conv_abc-123'',
                           botMessage ''100.4'' ''conv_xyz-789''])
                     (\<lambda>n. Inr \<lparr> response = ''hi'', conversation_id = None \<rparr>))
       exampleReply []
     = [ConversationsReplies (threadArgs exampleReply),
        Say (sayInThread exampleReply thinkingText),
        AxiosPost (MATT_GPT_API_URL exampleConfig @ ''/chat'')
          (requestPayload exampleConfig (Some ''and then?'')
             (apiContext exampleReply (Some ''xyz-789'')))
          (requestConfig exampleConfig),
        ChatUpdate \<lparr> update_channel = ''C1'', update_ts = ''200.0'',
          update_payload = createMessageWithConversationId ''hi'' (Some ''xyz-789'') ''100.1'' \<rparr>]
   \<and> extractConversationId (createMessageWithConversationId ''hi'' (Some ''xyz-789'') ''100.1'')
       = Some ''xyz-789''
   \<and> ''xyz-789'' \<noteq> ''abc-123''"
proof -
  let ?h = "[humanMessage ''C1'' ''100.1'' None ''hello'', botMessage ''100.2'' ''conv_abc-123'']
            @ botMessage ''100.4'' ''conv_xyz-789'' # []"
  let ?w = "exampleWorld (Inr ?h) (\<lambda>n. Inr \<lparr> response = ''hi'', conversation_id = None \<rparr>)"
  have b: "truthy (bot_id (botMessage ''100.4'' ''conv_xyz-789''))"
      "extractConversationId (botMessage ''100.4'' ''conv_xyz-789'') = Some ''xyz-789''"
    using botMessage_embeds [of "''100.4''" "''xyz-789''"] by simp_all
  have f: "conversations_replies ?w (length []) (threadArgs exampleReply) = Inr ?h"
    by (simp add: exampleWorld_simps)
  have loc: "locateConversation ?w exampleReply []
               = (Some ''xyz-789'', [] @ [ConversationsReplies (threadArgs exampleReply)])"
    using locateConversation_recent [OF exampleReply_simps(2) f b(1)] b(2)
    by (simp add: truthy_def)
  have n: "\<not> isSideNote (cleanMessageText (text exampleReply))"
    unfolding exampleReply_simps by (rule exampleReply_clean(2))
  have "processMessageRequest exampleConfig ?w exampleReply []
     = [ConversationsReplies (threadArgs exampleReply),
        Say (sayInThread exampleReply thinkingText),
        AxiosPost (MATT_GPT_API_URL exampleConfig @ ''/chat'')
          (requestPayload exampleConfig (Some ''and then?'')
             (apiContext exampleReply (Some ''xyz-789'')))
          (requestConfig exampleConfig),
        ChatUpdate \<lparr> update_channel = ''C1'', update_ts = ''200.0'',
          update_payload = createMessageWithConversationId ''hi'' (Some ''xyz-789'') ''100.1'' \<rparr>]"
    using example_turn [OF n loc, of "\<lparr> response = ''hi'', conversation_id = None \<rparr>"]
    by (simp add: exampleReply_simps exampleReply_clean(1) js_or_def truthy_def)
  then show ?thesis
    using botMessage_embeds [of "''100.2''" "''abc-123''"]
    by (simp add: extract_created template_def)
qed

lemma scanHistory_null_or_truthy: "scanHistory xs = None \<or> truthy (scanHistory xs)"
  by (induction xs) (auto simp: Let_def)

lemma locateConversation_null_or_truthy:
  "locateConversation w m tr = (cid, tr1) \<Longrightarrow> cid = None \<or> truthy cid"
  using scanHistory_null_or_truthy
  by (auto simp: locateConversation_def split: if_splits sum.splits)

text \<open>
  C2 (resolution of the id, amended): when the backend call returns \<open>r\<close>, the reply written
  over the placeholder is built with the id \<open>conversation_id r || conversationId\<close> and with
  nothing else: it embeds the id of \<open>r\<close> when that is non-empty, otherwise the id located
  in the thread when there is one. The located id is null or non-empty. When neither id is
  present no id is minted: the one block of the reply has the id \<open>conv_null\<close>, the
  template of \<open>null\<close>, which decodes to the text \<open>null\<close>.
\<close>

theorem resolution_backend_or_located:
  assumes "\<not> isSideNote (cleanMessageText (text m))"
    and "truthy (MATT_GPT_BEARER_TOKEN cfg)" and "truthy (OPENROUTER_API_KEY cfg)"
    and "locateConversation w m tr = (cid, tr1)"
    and "say w (length tr1) (sayInThread m thinkingText) = Inr thinkingMsg"
    and "callMattGPTWithRetry cfg w (cleanMessageText (text m)) (apiContext m cid) 3
           (tr1 @ [Say (sayInThread m thinkingText)]) = (Returned r, tr3)"
  shows "\<exists>p rest.
           processMessageRequest cfg w m tr
             = tr3 @ ChatUpdate \<lparr> update_channel = channel m, update_ts = posted_ts thinkingMsg,
                                  update_payload = p \<rparr> # rest
           \<and> p = createMessageWithConversationId (response r)
                   (js_or (conversation_id r) cid) (threadAnchor m)
           \<and> (cid = None \<or> truthy cid)
           \<and> (truthy (conversation_id r) \<longrightarrow> extractConversationId p = conversation_id r)
           \<and> (\<not> truthy (conversation_id r) \<and> truthy cid \<longrightarrow> extractConversationId p = cid)
           \<and> (\<not> truthy (conversation_id r) \<and> \<not> truthy cid \<longrightarrow>
                 blocks p = Some [\<lparr> block_type = ''section'', block_id = Some ''conv_null'',
                                     block_text = Some \<lparr> text_type = ''mrkdwn'',
                                                          text_text = response r \<rparr> \<rparr>]
                 \<and> extractConversationId p = Some ''null'')"
proof -
  let ?p = "createMessageWithConversationId (response r) (js_or (conversation_id r) cid)
              (threadAnchor m)"
  have c: "cid = None \<or> truthy cid"
    using locateConversation_null_or_truthy [OF assms(4)] .
  have a: "truthy (conversation_id r) \<longrightarrow> extractConversationId ?p = conversation_id r"
    using extract_created_truthy [of "conversation_id r"] by (simp add: js_or_def)
  have b: "\<not> truthy (conversation_id r) \<and> truthy cid \<longrightarrow> extractConversationId ?p = cid"
    using extract_created_truthy [of cid] by (simp add: js_or_def)
  have n: "\<not> truthy (conversation_id r) \<and> \<not> truthy cid \<longrightarrow>
             blocks ?p = Some [\<lparr> block_type = ''section'', block_id = Some ''conv_null'',
                                 block_text = Some \<lparr> text_type = ''mrkdwn'',
                                                      text_text = response r \<rparr> \<rparr>]
             \<and> extractConversationId ?p = Some ''null''"
  proof
    assume "\<not> truthy (conversation_id r) \<and> \<not> truthy cid"
    with c have e: "js_or (conversation_id r) cid = None"
      by (auto simp: js_or_def)
    have "blocks ?p = Some [\<lparr> block_type = ''section'', block_id = Some ''conv_null'',
                                 block_text = Some \<lparr> text_type = ''mrkdwn'',
                                                      text_text = response r \<rparr> \<rparr>]"
      unfolding e by (simp add: createMessageWithConversationId_def template_def)
    moreover have "extractConversationId ?p = Some ''null''"
      unfolding e by (simp add: extract_created template_def)
    ultimately show "blocks ?p = Some [\<lparr> block_type = ''section'', block_id = Some ''conv_null'',
                                 block_text = Some \<lparr> text_type = ''mrkdwn'',
                                                      text_text = response r \<rparr> \<rparr>]
             \<and> extractConversationId ?p = Some ''null''"
      by simp
  qed
  show ?thesis
    using processMessageRequest_answered [OF assms] a b c n by blast
qed

text \<open>
  A first message answered with the id \<open>srv-42\<close>: the reply embeds it.
\<close>

theorem resolution_backend_or_located_witness:
  "\<exists>p rest.
     processMessageRequest exampleConfig
       (exampleWorld (Inr []) (\<lambda>n. exampleAnswer (Some ''srv-42'')))
       (mockMessage (exampleMention ''100.1'' ''<@U09BR46BEV8> hello'')) []
     = [Say (sayInThread (mockMessage (exampleMention ''100.1'' ''<@U09BR46BEV8> hello''))
               thinkingText),
        AxiosPost (MATT_GPT_API_URL exampleConfig @ ''/chat'')
          (requestPayload exampleConfig (Some ''hello'')
             (apiContext (mockMessage (exampleMention ''100.1'' ''<@U09BR46BEV8> hello'')) None))
          (requestConfig exampleConfig)]
       @ ChatUpdate \<lparr> update_channel = ''C1'', update_ts = ''200.0'', update_payload = p \<rparr> # rest
     \<and> extractConversationId p = Some ''srv-42''"
proof -
  let ?m = "mockMessage (exampleMention ''100.1'' ''<@U09BR46BEV8> hello'')"
  let ?w = "exampleWorld (Inr []) (\<lambda>n. exampleAnswer (Some ''srv-42''))"
  let ?tr2 = "[] @ [Say (sayInThread ?m thinkingText)]"
  let ?post = "AxiosPost (MATT_GPT_API_URL exampleConfig @ ''/chat'')
          (requestPayload exampleConfig (cleanMessageText (text ?m)) (apiContext ?m None))
          (requestConfig exampleConfig)"
  have n: "\<not> isSideNote (cleanMessageText (text ?m))"
    by (simp add: exampleMention_simps example_mentions)
  have loc: "locateConversation ?w ?m [] = (None, [])"
    by (simp add: locateConversation_def exampleMention_simps)
  have s: "say ?w (length []) (sayInThread ?m thinkingText) = Inr \<lparr> posted_ts = ''200.0'' \<rparr>"
    by (simp add: exampleWorld_simps)
  have c: "callMattGPTWithRetry exampleConfig ?w (cleanMessageText (text ?m))
             (apiContext ?m None) 3 ?tr2
           = (Returned \<lparr> response = ''hi'', conversation_id = Some ''srv-42'' \<rparr>, ?tr2 @ [?post])"
    by (rule retry_runs(1)) (simp add: exampleWorld_simps exampleAnswer_def)
  from resolution_backend_or_located [OF n exampleConfig_truthy(1,2) loc s c]
  obtain p rest where
    t: "processMessageRequest exampleConfig ?w ?m []
          = (?tr2 @ [?post]) @ ChatUpdate \<lparr> update_channel = channel ?m, update_ts = ''200.0'',
                                               update_payload = p \<rparr> # rest"
    and e: "extractConversationId p = Some ''srv-42''"
    by (auto simp: truthy_def)
  show ?thesis
    using t e by (auto simp: exampleMention_simps example_mentions)
qed

text \<open>
  Two first messages of two conversations, answered without an id and with no thread to
  search: no id is minted, and both replies carry the block id \<open>conv_null\<close>, which
  decodes to the same text \<open>null\<close>.
\<close>

theorem resolution_counterexample:
  "appMentionHandler exampleConfig
       (exampleWorld (Inr []) (\<lambda>n. Inr \<lparr> response = ''hi'', conversation_id = None \<rparr>))
       (exampleMention ''100.1'' ''<@U09BR46BEV8> hello'') []
     = [Say \<lparr> say_text = thinkingText, say_thread_ts = Some ''100.1'' \<rparr>,
        AxiosPost (MATT_GPT_API_URL exampleConfig @ ''/chat'')
          \<lparr> payload_message = Some ''hello'',
            payload_openrouter_api_key = OPENROUTER_API_KEY exampleConfig,
            payload_conversation_id = None \<rparr>
          (requestConfig exampleConfig),
        ChatUpdate \<lparr> update_channel = ''C1'', update_ts = ''200.0'',
          update_payload = createMessageWithConversationId ''hi'' None ''100.1'' \<rparr>]
   \<and> appMentionHandler exampleConfig
       (exampleWorld (Inr []) (\<lambda>n. Inr \<lparr> response = ''hi'', conversation_id = None \<rparr>))
       (exampleMention ''300.1'' ''<@U09BR46BEV8> bye'') []
     = [Say \<lparr> say_text = thinkingText, say_thread_ts = Some ''300.1'' \<rparr>,
        AxiosPost (MATT_GPT_API_URL exampleConfig @ ''/chat'')
          \<lparr> payload_message = Some ''bye'',
            payload_openrouter_api_key = OPENROUTER_API_KEY exampleConfig,
            payload_conversation_id = None \<rparr>
          (requestConfig exampleConfig),
        ChatUpdate \<lparr> update_channel = ''C1'', update_ts = ''200.0'',
          update_payload = createMessageWithConversationId ''hi'' None ''300.1'' \<rparr>]
   \<and> extractConversationId (createMessageWithConversationId ''hi'' None ''100.1'') = Some ''null''
   \<and> extractConversationId (createMessageWithConversationId ''hi'' None ''300.1'') = Some ''null''"
proof -
  let ?w = "exampleWorld (Inr []) (\<lambda>n. Inr \<lparr> response = ''hi'', conversation_id = None \<rparr>)"
  have turn: "appMentionHandler exampleConfig ?w (exampleMention t str) []
     = [Say \<lparr> say_text = thinkingText, say_thread_ts = Some t \<rparr>,
        AxiosPost (MATT_GPT_API_URL exampleConfig @ ''/chat'')
          \<lparr> payload_message = cleanMessageText (Some str),
            payload_openrouter_api_key = OPENROUTER_API_KEY exampleConfig,
            payload_conversation_id = None \<rparr>
          (requestConfig exampleConfig),
        ChatUpdate \<lparr> update_channel = ''C1'', update_ts = ''200.0'',
          update_payload = createMessageWithConversationId ''hi'' None t \<rparr>]"
    if "\<not> isSideNote (cleanMessageText (Some str))" for t str
  proof -
    have loc: "locateConversation ?w (mockMessage (exampleMention t str)) [] = (None, [])"
      by (simp add: locateConversation_def exampleMention_simps)
    have n: "\<not> isSideNote (cleanMessageText (text (mockMessage (exampleMention t str))))"
      using that by (simp add: exampleMention_simps)
    show ?thesis
      using example_turn [OF n loc, of "\<lparr> response = ''hi'', conversation_id = None \<rparr>"]
      by (simp add: appMentionHandler_def exampleConfig_truthy exampleMention_simps
            sayInThread_def requestPayload_def apiContext_def js_or_def truthy_def)
  qed
  show ?thesis
    using turn [where str = "''<@U09BR46BEV8> hello''" and t = "''100.1''"]
      turn [where str = "''<@U09BR46BEV8> bye''" and t = "''300.1''"]
    by (simp add: example_mentions extract_created template_def)
qed

text \<open>
  C6 (placeholder, amended): after the placeholder has been posted, a backend call that
  returns is followed by one edit of the placeholder, in place, with the composed reply, and
  by an apology in the thread only if that edit is rejected. When all three attempts fail,
  the turn ends with one apology, chosen by the text of the failure, posted to the thread
  as a message of its own: the placeholder is not edited, and the program has no operation
  that deletes a message.
\<close>

theorem placeholder_outcomes:
  assumes "\<not> isSideNote (cleanMessageText (text m))"
    and "truthy (MATT_GPT_BEARER_TOKEN cfg)" and "truthy (OPENROUTER_API_KEY cfg)"
    and "locateConversation w m tr = (cid, tr1)"
    and "say w (length tr1) (sayInThread m thinkingText) = Inr thinkingMsg"
  shows
    "let tr2 = tr1 @ [Say (sayInThread m thinkingText)];
         url = MATT_GPT_API_URL cfg @ ''/chat'';
         body = requestPayload cfg (cleanMessageText (text m)) (apiContext m cid);
         post = AxiosPost url body (requestConfig cfg);
         answer = (\<lambda>k. axios_post w (length tr2 + k) url body (requestConfig cfg));
         edit = (\<lambda>r. \<lparr> update_channel = channel m, update_ts = posted_ts thinkingMsg,
                        update_payload = createMessageWithConversationId (response r)
                                           (js_or (conversation_id r) cid) (threadAnchor m) \<rparr>)
     in (\<forall>r tr3. callMattGPTWithRetry cfg w (cleanMessageText (text m)) (apiContext m cid) 3 tr2
                    = (Returned r, tr3) \<longrightarrow>
           processMessageRequest cfg w m tr
             = tr3 @ ChatUpdate (edit r)
                 # (case chat_update w (length tr3) (edit r) of
                      Inl e \<Rightarrow> [Say (sayInThread m (userMessage e))]
                    | Inr u \<Rightarrow> []))
      \<and> (\<forall>e1 e2 e3. answer 0 = Inl e1 \<and> answer 2 = Inl e2 \<and> answer 4 = Inl e3 \<longrightarrow>
           processMessageRequest cfg w m tr
             = tr2 @ [post, SetTimeout 2000, post, SetTimeout 4000, post,
                      Say (sayInThread m (userMessage
                        \<lparr> err_message = ''Matt-GPT API failed after 3 attempts: ''
                                         @ err_message e3 \<rparr>))])"
proof -
  let ?tr2 = "tr1 @ [Say (sayInThread m thinkingText)]"
  let ?cl = "cleanMessageText (text m)"
  have a: "processMessageRequest cfg w m tr
             = tr3 @ ChatUpdate \<lparr> update_channel = channel m, update_ts = posted_ts thinkingMsg,
                        update_payload = createMessageWithConversationId (response r)
                                           (js_or (conversation_id r) cid) (threadAnchor m) \<rparr>
                 # (case chat_update w (length tr3) \<lparr> update_channel = channel m, update_ts = posted_ts thinkingMsg,
                        update_payload = createMessageWithConversationId (response r)
                                           (js_or (conversation_id r) cid) (threadAnchor m) \<rparr> of
                      Inl e \<Rightarrow> [Say (sayInThread m (userMessage e))]
                    | Inr u \<Rightarrow> [])"
    if "callMattGPTWithRetry cfg w ?cl (apiContext m cid) 3 ?tr2 = (Returned r, tr3)" for r tr3
    using processMessageRequest_answered [OF assms that] .
  have b: "processMessageRequest cfg w m tr
             = ?tr2 @ [AxiosPost (MATT_GPT_API_URL cfg @ ''/chat'') (requestPayload cfg ?cl (apiContext m cid)) (requestConfig cfg),
                       SetTimeout 2000,
                       AxiosPost (MATT_GPT_API_URL cfg @ ''/chat'') (requestPayload cfg ?cl (apiContext m cid)) (requestConfig cfg),
                       SetTimeout 4000,
                       AxiosPost (MATT_GPT_API_URL cfg @ ''/chat'') (requestPayload cfg ?cl (apiContext m cid)) (requestConfig cfg),
                      Say (sayInThread m (userMessage
                        \<lparr> err_message = ''Matt-GPT API failed after 3 attempts: ''
                                         @ err_message e3 \<rparr>))]"
    if "axios_post w (length ?tr2 + 0) (MATT_GPT_API_URL cfg @ ''/chat'')
          (requestPayload cfg ?cl (apiContext m cid)) (requestConfig cfg) = Inl e1"
       "axios_post w (length ?tr2 + 2) (MATT_GPT_API_URL cfg @ ''/chat'')
          (requestPayload cfg ?cl (apiContext m cid)) (requestConfig cfg) = Inl e2"
       "axios_post w (length ?tr2 + 4) (MATT_GPT_API_URL cfg @ ''/chat'')
          (requestPayload cfg ?cl (apiContext m cid)) (requestConfig cfg) = Inl e3"
    for e1 e2 e3
    using processMessageRequest_threw [OF assms retry_runs(4) [OF that]] by simp
  show ?thesis
    unfolding Let_def using a b by blast
qed

lemma example_apologies:
  "userMessage \<lparr> err_message = ''Matt-GPT API failed after 3 attempts: timeout of 30000ms exceeded'' \<rparr>
     = timeoutText"
  "userMessage \<lparr> err_message = ''Matt-GPT API failed after 3 attempts: Request failed with status code 500'' \<rparr>
     = unavailableText"
  by code_simp+

text \<open>
  A backend that answers every attempt with status 500.
\<close>

theorem placeholder_outcomes_witness:
  "processMessageRequest exampleConfig
     (exampleWorld (Inr []) (\<lambda>n. Inl \<lparr> err_message = ''Request failed with status code 500'' \<rparr>))
     (mockMessage (exampleMention ''100.1'' ''<@U09BR46BEV8> hello'')) []
   = [Say \<lparr> say_text = thinkingText, say_thread_ts = Some ''100.1'' \<rparr>,
      AxiosPost (MATT_GPT_API_URL exampleConfig @ ''/chat'')
        \<lparr> payload_message = Some ''hello'',
          payload_openrouter_api_key = OPENROUTER_API_KEY exampleConfig,
          payload_conversation_id = None \<rparr>
        (requestConfig exampleConfig),
      SetTimeout 2000,
      AxiosPost (MATT_GPT_API_URL exampleConfig @ ''/chat'')
        \<lparr> payload_message = Some ''hello'',
          payload_openrouter_api_key = OPENROUTER_API_KEY exampleConfig,
          payload_conversation_id = None \<rparr>
        (requestConfig exampleConfig),
      SetTimeout 4000,
      AxiosPost (MATT_GPT_API_URL exampleConfig @ ''/chat'')
        \<lparr> payload_message = Some ''hello'',
          payload_openrouter_api_key = OPENROUTER_API_KEY exampleConfig,
          payload_conversation_id = None \<rparr>
        (requestConfig exampleConfig),
      Say \<lparr> say_text = unavailableText, say_thread_ts = Some ''100.1'' \<rparr>]"
proof -
  let ?m = "mockMessage (exampleMention ''100.1'' ''<@U09BR46BEV8> hello'')"
  let ?e = "\<lparr> err_message = ''Request failed with status code 500'' \<rparr>"
  let ?w = "exampleWorld (Inr []) (\<lambda>n. Inl ?e)"
  have n: "\<not> isSideNote (cleanMessageText (text ?m))"
    by (simp add: exampleMention_simps example_mentions)
  have loc: "locateConversation ?w ?m [] = (None, [])"
    by (simp add: locateConversation_def exampleMention_simps)
  have s: "say ?w (length []) (sayInThread ?m thinkingText) = Inr \<lparr> posted_ts = ''200.0'' \<rparr>"
    by (simp add: exampleWorld_simps)
  from placeholder_outcomes [OF n exampleConfig_truthy(1,2) loc s, unfolded Let_def,
      THEN conjunct2, rule_format, of ?e ?e ?e]
  show ?thesis
    by (simp add: exampleWorld_simps exampleMention_simps example_mentions example_apologies
          sayInThread_def requestPayload_def apiContext_def truthy_def)
qed

text \<open>
  A backend that times out on every attempt: the turn ends with an apology posted as a
  new message, and no event edits or removes the placeholder posted first.
\<close>

theorem placeholder_counterexample:
  "processMessageRequest exampleConfig (exampleWorld (Inr []) (\<lambda>n. exampleFailure))
     (mockMessage (exampleMention ''100.1'' ''<@U09BR46BEV8> hello'')) []
   = [Say \<lparr> say_text = thinkingText, say_thread_ts = Some ''100.1'' \<rparr>,
      AxiosPost (MATT_GPT_API_URL exampleConfig @ ''/chat'')
        \<lparr> payload_message = Some ''hello'',
          payload_openrouter_api_key = OPENROUTER_API_KEY exampleConfig,
          payload_conversation_id = None \<rparr>
        (requestConfig exampleConfig),
      SetTimeout 2000,
      AxiosPost (MATT_GPT_API_URL exampleConfig @ ''/chat'')
        \<lparr> payload_message = Some ''hello'',
          payload_openrouter_api_key = OPENROUTER_API_KEY exampleConfig,
          payload_conversation_id = None \<rparr>
        (requestConfig exampleConfig),
      SetTimeout 4000,
      AxiosPost (MATT_GPT_API_URL exampleConfig @ ''/chat'')
        \<lparr> payload_message = Some ''hello'',
          payload_openrouter_api_key = OPENROUTER_API_KEY exampleConfig,
          payload_conversation_id = None \<rparr>
        (requestConfig exampleConfig),
      Say \<lparr> say_text = timeoutText, say_thread_ts = Some ''100.1'' \<rparr>]"
proof -
  let ?m = "mockMessage (exampleMention ''100.1'' ''<@U09BR46BEV8> hello'')"
  let ?w = "exampleWorld (Inr []) (\<lambda>n. exampleFailure)"
  let ?tr2 = "[] @ [Say (sayInThread ?m thinkingText)]"
  have n: "\<not> isSideNote (cleanMessageText (text ?m))"
    by (simp add: exampleMention_simps example_mentions)
  have loc: "locateConversation ?w ?m [] = (None, [])"
    by (simp add: locateConversation_def exampleMention_simps)
  have s: "say ?w (length []) (sayInThread ?m thinkingText) = Inr \<lparr> posted_ts = ''200.0'' \<rparr>"
    by (simp add: exampleWorld_simps)
  have f: "axios_post ?w (length ?tr2 + k) (MATT_GPT_API_URL exampleConfig @ ''/chat'')
             (requestPayload exampleConfig (cleanMessageText (text ?m)) (apiContext ?m None))
             (requestConfig exampleConfig)
           = Inl \<lparr> err_message = ''timeout of 30000ms exceeded'' \<rparr>" for k
    by (simp add: exampleWorld_simps exampleFailure_def)
  from processMessageRequest_threw [OF n exampleConfig_truthy(1,2) loc s
      retry_runs(4) [OF f f f]]
  show ?thesis
    by (simp add: exampleMention_simps example_mentions example_apologies
          sayInThread_def requestPayload_def apiContext_def truthy_def)
qed

lemma retry_shape:
  "\<exists>res rest.
     callMattGPTWithRetry cfg w msg ctx 3 tr
       = (res, tr @ AxiosPost (MATT_GPT_API_URL cfg @ ''/chat'') (requestPayload cfg msg ctx)
                      (requestConfig cfg) # rest)
     \<and> res \<noteq> ReturnedUndefined"
proof -
  let ?answer = "\<lambda>k. axios_post w (length tr + k) (MATT_GPT_API_URL cfg @ ''/chat'')
                       (requestPayload cfg msg ctx) (requestConfig cfg)"
  show ?thesis
  proof (cases "?answer 0")
    case (Inr r)
    from retry_runs(1) [OF this] show ?thesis by simp
  next
    case e1: (Inl e1)
    show ?thesis
    proof (cases "?answer 2")
      case (Inr r)
      from retry_runs(2) [OF e1 this] show ?thesis by simp
    next
      case e2: (Inl e2)
      show ?thesis
      proof (cases "?answer 4")
        case (Inr r)
        from retry_runs(3) [OF e1 e2 this] show ?thesis by simp
      next
        case (Inl e3)
        from retry_runs(4) [OF e1 e2 this] show ?thesis by simp
      qed
    qed
  qed
qed

lemma mockMessage_simps:
  "text (mockMessage ev) = event_text ev"
  "channel (mockMessage ev) = event_channel ev"
  by (simp_all add: mockMessage_def)

text \<open>
  C7 (explicit-mention path, amended): for every mention event in the monitored channel,
  or in any channel when none is configured, whose mention-stripped text does not begin
  with a side-note marker, with both credentials set and the placeholder posted: the
  request to the backend is the next event after the placeholder, and when the call returns
  an answer the next event is the edit of the placeholder into the reply. Nothing is
  assumed about the thread or its history.
\<close>

theorem mention_responds:
  assumes "\<not> notMonitored cfg (event_channel ev)"
    and "\<not> isSideNote (cleanMessageText (event_text ev))"
    and "truthy (MATT_GPT_BEARER_TOKEN cfg)" and "truthy (OPENROUTER_API_KEY cfg)"
    and "locateConversation w (mockMessage ev) tr = (cid, tr1)"
    and "say w (length tr1) (sayInThread (mockMessage ev) thinkingText) = Inr thinkingMsg"
  shows "\<exists>res rest tail.
           callMattGPTWithRetry cfg w (cleanMessageText (event_text ev))
               (apiContext (mockMessage ev) cid) 3
               (tr1 @ [Say (sayInThread (mockMessage ev) thinkingText)])
             = (res, tr1 @ Say (sayInThread (mockMessage ev) thinkingText)
                       # AxiosPost (MATT_GPT_API_URL cfg @ ''/chat'')
                           (requestPayload cfg (cleanMessageText (event_text ev))
                              (apiContext (mockMessage ev) cid))
                           (requestConfig cfg)
                       # rest)
           \<and> appMentionHandler cfg w ev tr
               = tr1 @ Say (sayInThread (mockMessage ev) thinkingText)
                   # AxiosPost (MATT_GPT_API_URL cfg @ ''/chat'')
                       (requestPayload cfg (cleanMessageText (event_text ev))
                          (apiContext (mockMessage ev) cid))
                       (requestConfig cfg)
                   # rest @ tail
           \<and> (\<forall>r. res = Returned r \<longrightarrow>
                 (\<exists>tail'. tail = ChatUpdate
                     \<lparr> update_channel = event_channel ev, update_ts = posted_ts thinkingMsg,
                       update_payload = createMessageWithConversationId (response r)
                          (js_or (conversation_id r) cid) (threadAnchor (mockMessage ev)) \<rparr>
                     # tail'))"
proof -
  let ?m = "mockMessage ev"
  let ?say = "Say (sayInThread ?m thinkingText)"
  let ?post = "AxiosPost (MATT_GPT_API_URL cfg @ ''/chat'')
                 (requestPayload cfg (cleanMessageText (event_text ev)) (apiContext ?m cid))
                 (requestConfig cfg)"
  have h: "appMentionHandler cfg w ev tr = processMessageRequest cfg w ?m tr"
    using assms(1) by (simp add: appMentionHandler_def)
  have n: "\<not> isSideNote (cleanMessageText (text ?m))"
    using assms(2) by (simp add: mockMessage_simps)
  obtain res rest where
    c: "callMattGPTWithRetry cfg w (cleanMessageText (text ?m)) (apiContext ?m cid) 3
          (tr1 @ [?say]) = (res, (tr1 @ [?say]) @ ?post # rest)"
    and u: "res \<noteq> ReturnedUndefined"
    using retry_shape [of cfg w "cleanMessageText (text ?m)" "apiContext ?m cid" "tr1 @ [?say]"]
    by (auto simp: mockMessage_simps)
  show ?thesis
  proof (cases res)
    case (Returned r)
    from processMessageRequest_answered [OF n assms(3,4,5,6) c [unfolded Returned]]
    show ?thesis
      using c h Returned by (simp add: mockMessage_simps)
  next
    case ReturnedUndefined
    with u show ?thesis by simp
  next
    case (Threw e)
    from processMessageRequest_threw [OF n assms(3,4,5,6) c [unfolded Threw]]
    show ?thesis
      using c h Threw by (simp add: mockMessage_simps)
  qed
qed

text \<open>
  A mention inside a thread whose history cannot be fetched.
\<close>

theorem mention_responds_witness:
  "\<exists>rest.
     appMentionHandler exampleConfig
       (exampleWorld (Inl \<lparr> err_message = ''channel_not_found'' \<rparr>) (\<lambda>n. exampleAnswer None))
       exampleThreadMention []
     = ConversationsReplies (threadArgs (mockMessage exampleThreadMention))
       # Say (sayInThread (mockMessage exampleThreadMention) thinkingText)
       # AxiosPost (MATT_GPT_API_URL exampleConfig @ ''/chat'')
           (requestPayload exampleConfig (Some ''hello'')
              (apiContext (mockMessage exampleThreadMention) None))
           (requestConfig exampleConfig)
       # rest"
proof -
  let ?ev = exampleThreadMention
  let ?w = "exampleWorld (Inl \<lparr> err_message = ''channel_not_found'' \<rparr>) (\<lambda>n. exampleAnswer None)"
  have m: "\<not> notMonitored exampleConfig (event_channel ?ev)"
    by (simp add: exampleThreadMention_def exampleConfig_truthy)
  have t: "event_text ?ev = Some ''<@U09BR46BEV8> hello''"
    by (simp add: exampleThreadMention_def)
  have n: "\<not> isSideNote (cleanMessageText (event_text ?ev))"
    by (simp add: t example_mentions)
  have r: "isThreadReply (mockMessage ?ev)"
    by (simp add: exampleThreadMention_def mockMessage_def isThreadReply_def truthy_def)
  have loc: "locateConversation ?w (mockMessage ?ev) []
               = (None, [ConversationsReplies (threadArgs (mockMessage ?ev))])"
    using r by (simp add: locateConversation_def exampleWorld_simps)
  have s: "say ?w (length [ConversationsReplies (threadArgs (mockMessage ?ev))])
             (sayInThread (mockMessage ?ev) thinkingText) = Inr \<lparr> posted_ts = ''200.0'' \<rparr>"
    by (simp add: exampleWorld_simps)
  from mention_responds [OF m n exampleConfig_truthy(1,2) loc s]
  show ?thesis
    by (auto simp: t example_mentions)
qed

text \<open>
  A mention in the monitored channel whose text, after the mention, begins with
  \<open>side note\<close>: the handler makes no call.
\<close>

theorem mention_counterexample:
  "MONITORED_CHANNEL exampleConfig = Some ''C1''
   \<and> event_channel (exampleMention ''100.1'' ''<@U09BR46BEV8> side note: x'') = ''C1''
   \<and> appMentionHandler exampleConfig (exampleWorld (Inr []) (\<lambda>n. exampleAnswer None))
        (exampleMention ''100.1'' ''<@U09BR46BEV8> side note: x'') [] = []"
  by (simp add: appMentionHandler_def processMessageRequest_def exampleMention_simps
        example_mentions exampleConfig_truthy)
     (simp add: MONITORED_CHANNEL_def exampleConfig_def)

section \<open>Properties of the entry points\<close>

text \<open>
  C8 (redirect rule, amended): for every message that passes the filters of lines 230 to
  257 (no bot id, no subtype other than a thread broadcast, no bot profile, not Slackbot):
  if its channel id starts with D and a monitored channel is configured, the handler makes
  exactly one call, the post of the pointer text that names the monitored channel, outside
  any thread; if its channel id starts with G and is not the configured monitored channel,
  the handler makes no call at all. In neither case is the backend contacted.
\<close>

theorem direct_message_redirect:
  assumes "\<not> truthy (bot_id m)"
    and "\<not> (truthy (subtype m) \<and> subtype m \<noteq> Some ''thread_broadcast'')"
    and "bot_profile m = None"
    and "user m \<noteq> Some ''USLACKBOT''"
  shows "(isDMChannel (channel m) \<and> truthy (MONITORED_CHANNEL cfg) \<longrightarrow>
            snd (messageHandler cfg w m tr)
              = tr @ [Say \<lparr> say_text = [CHR 0xF0, CHR 0x9F, CHR 0x91, CHR 0x8B]
                                @ '' Hi there! I only respond to messages in <#''
                                @ template_env (MONITORED_CHANNEL cfg)
                                @ ''>. Please write your message there and I'' @ [CHR 0x27]
                                @ ''ll respond in the thread!'',
                              say_thread_ts = None \<rparr>])
       \<and> (\<not> isDMChannel (channel m) \<and> isProbablyGroupDMOrPrivateChannel (channel m)
            \<and> notMonitored cfg (channel m) \<longrightarrow>
            messageHandler cfg w m tr = (None, tr))"
proof (intro conjI impI)
  assume a: "isDMChannel (channel m) \<and> truthy (MONITORED_CHANNEL cfg)"
  have rt: "[CHR 0xF0, CHR 0x9F, CHR 0x91, CHR 0x8B]
              @ '' Hi there! I only respond to messages in <#''
              @ template_env (MONITORED_CHANNEL cfg)
              @ ''>. Please write your message there and I'' @ [CHR 0x27]
              @ ''ll respond in the thread!'' = redirectText cfg"
    using a by (simp add: redirectText_def)
  show "snd (messageHandler cfg w m tr)
          = tr @ [Say \<lparr> say_text = [CHR 0xF0, CHR 0x9F, CHR 0x91, CHR 0x8B]
                                @ '' Hi there! I only respond to messages in <#''
                                @ template_env (MONITORED_CHANNEL cfg)
                                @ ''>. Please write your message there and I'' @ [CHR 0x27]
                                @ ''ll respond in the thread!'',
                              say_thread_ts = None \<rparr>]"
    unfolding rt using assms a
    by (cases "say w (length tr) \<lparr> say_text = redirectText cfg, say_thread_ts = None \<rparr>")
       (simp_all add: messageHandler_def Let_def)
next
  assume "\<not> isDMChannel (channel m) \<and> isProbablyGroupDMOrPrivateChannel (channel m)
            \<and> notMonitored cfg (channel m)"
  with assms show "messageHandler cfg w m tr = (None, tr)"
    by (simp add: messageHandler_def)
qed

text \<open>
  A message in a direct-message channel.
\<close>

theorem direct_message_redirect_witness:
  "snd (messageHandler exampleConfig (exampleWorld (Inr []) (\<lambda>n. exampleAnswer None))
          (humanMessage ''D024BE91L'' ''100.1'' None ''hello'') [])
   = [Say \<lparr> say_text = [CHR 0xF0, CHR 0x9F, CHR 0x91, CHR 0x8B]
                @ '' Hi there! I only respond to messages in <#C1''
                @ ''>. Please write your message there and I'' @ [CHR 0x27]
                @ ''ll respond in the thread!'',
            say_thread_ts = None \<rparr>]"
proof -
  let ?m = "humanMessage ''D024BE91L'' ''100.1'' None ''hello''"
  have f: "\<not> truthy (bot_id ?m)"
      "\<not> (truthy (subtype ?m) \<and> subtype ?m \<noteq> Some ''thread_broadcast'')"
      "bot_profile ?m = None" "user ?m \<noteq> Some ''USLACKBOT''"
    by (simp_all add: humanMessage_def truthy_def)
  have d: "isDMChannel (channel ?m) \<and> truthy (MONITORED_CHANNEL exampleConfig)"
    by (simp add: humanMessage_def isDMChannel_def startsWith_def MONITORED_CHANNEL_def
          exampleConfig_def truthy_def)
  from direct_message_redirect [OF f, THEN conjunct1, rule_format, OF d]
  show ?thesis
    by (simp add: MONITORED_CHANNEL_def exampleConfig_def template_env_def)
qed

text \<open>
  A message of a person in a channel whose id starts with G, while \<open>C1\<close> is monitored:
  the handler posts nothing.
\<close>

theorem redirect_counterexample:
  "bot_id (humanMessage ''G024BE91L'' ''100.1'' None ''hello'') = None
   \<and> isProbablyGroupDMOrPrivateChannel (channel (humanMessage ''G024BE91L'' ''100.1'' None ''hello''))
   \<and> MONITORED_CHANNEL exampleConfig = Some ''C1''
   \<and> messageHandler exampleConfig (exampleWorld (Inr []) (\<lambda>n. exampleAnswer None))
        (humanMessage ''G024BE91L'' ''100.1'' None ''hello'') [] = (None, [])"
  by (simp add: messageHandler_def humanMessage_def truthy_def isDMChannel_def
        isProbablyGroupDMOrPrivateChannel_def startsWith_def notMonitored_def
        MONITORED_CHANNEL_def exampleConfig_def)

lemma lowerChar_sameLetter:
  assumes "spec_sameLetter a b" and "lowerChar b = b"
  shows "lowerChar a = b"
proof (cases "a = b")
  case True
  with assms(2) show ?thesis by simp
next
  case False
  with assms(1) have r: "97 \<le> (of_char b :: nat)" "(of_char b :: nat) \<le> 122"
      "(of_char a :: nat) + 32 = of_char b"
    by (simp_all add: spec_sameLetter_def)
  then have "65 \<le> (of_char a :: nat) \<and> (of_char a :: nat) \<le> 90" by arith
  then have "lowerChar a = char_of ((of_char a :: nat) + 32)"
    by (simp add: lowerChar_def Let_def)
  with r(3) show ?thesis by simp
qed

lemma toLowerCase_sameLetters:
  "list_all2 spec_sameLetter p marker \<Longrightarrow> \<forall>b\<in>set marker. lowerChar b = b \<Longrightarrow>
   toLowerCase p = marker"
  unfolding toLowerCase_def
  by (induction p marker rule: list_all2_induct) (simp_all add: lowerChar_sameLetter)

lemma startsWith_ignoring_case:
  assumes "spec_beginsIgnoringCase s marker" and "\<forall>b\<in>set marker. lowerChar b = b"
  shows "startsWith (toLowerCase s) marker"
proof -
  from assms have "toLowerCase (take (length marker) s) = marker"
    by (simp add: spec_beginsIgnoringCase_def toLowerCase_sameLetters)
  moreover have "toLowerCase s
      = toLowerCase (take (length marker) s) @ toLowerCase (drop (length marker) s)"
    unfolding toLowerCase_def by (simp flip: map_append)
  ultimately show ?thesis
    by (simp add: startsWith_def)
qed

lemma markers_lower:
  "\<forall>b\<in>set ''side note''. lowerChar b = b"
  "\<forall>b\<in>set ''sidenote''. lowerChar b = b"
  "\<forall>b\<in>set ''side-note''. lowerChar b = b"
  by (simp_all add: lowerChar_def)

lemma isSideNote_spec:
  assumes "marker = ''side note'' \<or> marker = ''sidenote'' \<or> marker = ''side-note''"
    and "spec_beginsIgnoringCase c marker"
  shows "isSideNote (Some c)"
proof -
  from assms have "startsWith (toLowerCase c) marker"
    using startsWith_ignoring_case markers_lower by blast
  moreover from assms have "c \<noteq> []"
    by (auto simp: spec_beginsIgnoringCase_def)
  ultimately show ?thesis
    using assms(1) by (auto simp: isSideNote_def Let_def)
qed

text \<open>
  C9 (side-note opt-out): a message whose mention-stripped text begins, in any mix of
  capitals and small letters, with \<open>side note\<close>, \<open>sidenote\<close> or \<open>side-note\<close> is dropped
  by the turn and by the mention path before any call: nothing is fetched, posted or sent
  to the backend. The event in channel C1 with text \<open>side note: ignore me\<close> and no thread
  is ignored on both entry points.
\<close>

theorem side_note_opt_out:
  assumes "marker = ''side note'' \<or> marker = ''sidenote'' \<or> marker = ''side-note''"
    and "cleanMessageText (text m) = Some c"
    and "spec_beginsIgnoringCase c marker"
  shows "processMessageRequest cfg w m tr = tr
       \<and> (text m = event_text ev \<longrightarrow> appMentionHandler cfg w ev tr = tr)
       \<and> messageHandler cfg w (humanMessage ''C1'' ''100.1'' None ''side note: ignore me'') tr
           = (None, tr)
       \<and> appMentionHandler cfg w (exampleMention ''100.1'' ''side note: ignore me'') tr = tr"
proof (intro conjI impI)
  have s: "isSideNote (cleanMessageText (text m))"
    using isSideNote_spec [OF assms(1,3)] assms(2) by simp
  then show "processMessageRequest cfg w m tr = tr"
    by (simp add: processMessageRequest_def)
  assume "text m = event_text ev"
  with s show "appMentionHandler cfg w ev tr = tr"
    by (simp add: appMentionHandler_def processMessageRequest_def mockMessage_simps)
next
  let ?m = "humanMessage ''C1'' ''100.1'' None ''side note: ignore me''"
  have "\<not> containsMention cfg ?m \<or> containsMention cfg ?m" by simp
  moreover have "\<not> isThreadReply ?m"
    by (simp add: humanMessage_def isThreadReply_def truthy_def)
  ultimately have "shouldRespond cfg w ?m tr = (False, tr)"
    by (auto simp: shouldRespond_def)
  then show "messageHandler cfg w ?m tr = (None, tr)"
    by (simp add: messageHandler_def humanMessage_def truthy_def isDMChannel_def
          isProbablyGroupDMOrPrivateChannel_def startsWith_def)
next
  have "isSideNote (cleanMessageText (Some ''side note: ignore me''))"
    by code_simp
  then show "appMentionHandler cfg w (exampleMention ''100.1'' ''side note: ignore me'') tr = tr"
    by (simp add: appMentionHandler_def processMessageRequest_def exampleMention_simps)
qed

text \<open>
  A thread reply that addresses the bot and then begins with \<open>Side-Note\<close>.
\<close>

theorem side_note_opt_out_witness:
  "cleanMessageText (text (humanMessage ''C1'' ''100.6'' (Some ''100.1'') ''<@U09BR46BEV8>  Side-Note: by the way''))
     = Some ''Side-Note: by the way''
   \<and> spec_beginsIgnoringCase ''Side-Note: by the way'' ''side-note''
   \<and> processMessageRequest exampleConfig (exampleWorld (Inr []) (\<lambda>n. exampleAnswer None))
        (humanMessage ''C1'' ''100.6'' (Some ''100.1'') ''<@U09BR46BEV8>  Side-Note: by the way'') []
      = []"
proof -
  let ?m = "humanMessage ''C1'' ''100.6'' (Some ''100.1'') ''<@U09BR46BEV8>  Side-Note: by the way''"
  have c: "cleanMessageText (text ?m) = Some ''Side-Note: by the way''"
    unfolding humanMessage_def by code_simp
  have b: "spec_beginsIgnoringCase ''Side-Note: by the way'' ''side-note''"
    by code_simp
  have k: "''side-note'' = ''side note'' \<or> ''side-note'' = ''sidenote'' \<or> ''side-note'' = ''side-note''"
    by simp
  from side_note_opt_out [OF k c b, THEN conjunct1] c b
  show ?thesis by simp
qed

text \<open>
  C10 (admission of thread replies): on the generic path, for a thread reply that passes
  the filters and contains no mention of the bot, the handler makes one history fetch with
  limit 50. The turn is processed if and only if that fetch returns a list in which some
  message carries a bot id, whichever bot it is; when the fetch is rejected, or no message
  carries one, the handler stops after the fetch.
\<close>

theorem thread_reply_admission:
  assumes "\<not> truthy (bot_id m)"
    and "\<not> (truthy (subtype m) \<and> subtype m \<noteq> Some ''thread_broadcast'')"
    and "bot_profile m = None"
    and "user m \<noteq> Some ''USLACKBOT''"
    and "\<not> isDMChannel (channel m)"
    and "\<not> notMonitored cfg (channel m)"
    and "\<not> containsMention cfg m"
    and "isThreadReply m"
  shows
    "let fetch = \<lparr> replies_channel = channel m, replies_ts = thread_ts m, replies_limit = 50 \<rparr>;
         admitted = (\<exists>h. conversations_replies w (length tr) fetch = Inr h
                          \<and> (\<exists>msg\<in>set h. truthy (bot_id msg)))
     in shouldRespond cfg w m tr = (admitted, tr @ [ConversationsReplies fetch])
      \<and> (admitted \<longrightarrow>
            messageHandler cfg w m tr
              = (None, processMessageRequest cfg w m (tr @ [ConversationsReplies fetch])))
      \<and> (\<not> admitted \<longrightarrow> messageHandler cfg w m tr = (None, tr @ [ConversationsReplies fetch]))
      \<and> (\<forall>error. conversations_replies w (length tr) fetch = Inl error \<longrightarrow>
            messageHandler cfg w m tr = (None, tr @ [ConversationsReplies fetch]))"
proof -
  let ?fetch = "\<lparr> replies_channel = channel m, replies_ts = thread_ts m, replies_limit = 50 \<rparr>"
  define admitted where
    "admitted \<longleftrightarrow> (\<exists>h. conversations_replies w (length tr) ?fetch = Inr h
                          \<and> (\<exists>msg\<in>set h. truthy (bot_id msg)))"
  have f: "threadArgs m = ?fetch"
    by (simp add: threadArgs_def)
  have s: "shouldRespond cfg w m tr = (admitted, tr @ [ConversationsReplies ?fetch])"
    using assms(7,8) unfolding admitted_def
    by (cases "conversations_replies w (length tr) ?fetch")
       (auto simp: shouldRespond_def f list_ex_iff)
  have h: "messageHandler cfg w m tr
             = (if fst (shouldRespond cfg w m tr)
                then (None, processMessageRequest cfg w m (snd (shouldRespond cfg w m tr)))
                else (None, snd (shouldRespond cfg w m tr)))"
    using assms(1-6) by (auto simp: messageHandler_def split: prod.splits bool.splits)
  have a: "messageHandler cfg w m tr
             = (None, processMessageRequest cfg w m (tr @ [ConversationsReplies ?fetch]))"
    if admitted
    using that by (simp add: h s)
  have b: "messageHandler cfg w m tr = (None, tr @ [ConversationsReplies ?fetch])"
    if "\<not> admitted"
    using that by (simp add: h s)
  have c: "\<not> admitted"
    if "conversations_replies w (length tr) ?fetch = Inl error" for error
    using that by (simp add: admitted_def)
  show ?thesis
    unfolding Let_def using s a b c unfolding admitted_def by blast
qed

text \<open>
  A reply in a thread that holds a message of a bot.
\<close>

theorem thread_reply_admission_witness:
  "messageHandler exampleConfig
     (exampleWorld (Inr [humanMessage ''C1'' ''100.1'' None ''hello'',
                         botMessage ''100.2'' ''conv_abc-123''])
                   (\<lambda>n. exampleAnswer None))
     exampleReply []
   = (None, processMessageRequest exampleConfig
        (exampleWorld (Inr [humanMessage ''C1'' ''100.1'' None ''hello'',
                            botMessage ''100.2'' ''conv_abc-123''])
                      (\<lambda>n. exampleAnswer None))
        exampleReply
        [ConversationsReplies \<lparr> replies_channel = ''C1'', replies_ts = Some ''100.1'',
                                 replies_limit = 50 \<rparr>])"
proof -
  let ?h = "[humanMessage ''C1'' ''100.1'' None ''hello'', botMessage ''100.2'' ''conv_abc-123'']"
  let ?w = "exampleWorld (Inr ?h) (\<lambda>n. exampleAnswer None)"
  have f: "\<not> truthy (bot_id exampleReply)"
      "\<not> (truthy (subtype exampleReply) \<and> subtype exampleReply \<noteq> Some ''thread_broadcast'')"
      "bot_profile exampleReply = None" "user exampleReply \<noteq> Some ''USLACKBOT''"
      "\<not> isDMChannel (channel exampleReply)"
      "\<not> notMonitored exampleConfig (channel exampleReply)"
    by (simp_all add: exampleReply_def humanMessage_def truthy_def isDMChannel_def
          startsWith_def exampleConfig_truthy)
  have c: "\<not> containsMention exampleConfig exampleReply"
    unfolding exampleReply_def humanMessage_def exampleConfig_def by code_simp
  have t: "thread_ts exampleReply = Some ''100.1''"
    by (simp add: exampleReply_def humanMessage_def)
  have a: "\<exists>h. conversations_replies ?w (length [])
                  \<lparr> replies_channel = channel exampleReply, replies_ts = thread_ts exampleReply,
                    replies_limit = 50 \<rparr> = Inr h
               \<and> (\<exists>msg\<in>set h. truthy (bot_id msg))"
    using botMessage_embeds(1) [of "''100.2''" "''abc-123''"]
    by (simp add: exampleWorld_simps)
  from thread_reply_admission [OF f c exampleReply_simps(2), of ?w "[]", unfolded Let_def,
      THEN conjunct2, THEN conjunct1, rule_format, OF a]
  show ?thesis
    by (simp add: exampleReply_simps t)
qed

end
